theory Spec2Isabelle
  imports Main
begin

section \<open>Data model\<close>

text \<open>
  The protocol types are modelled with the fields the sources read or write.
  A TypeScript value of type \<open>T | undefined\<close> is a \<open>T option\<close>.
\<close>

record programmer =
  programmer_name :: string
  programmer_platform :: string
  programmer_id :: string

record configValue =
  configValue_value :: string
  configValue_selected :: bool

record configOption =
  configOption_option :: string
  configOption_values :: "configValue list"

record boardDetails =
  details_configOptions :: "configOption list"
  details_programmers :: "programmer list"
  details_defaultProgrammerId :: "string option"

text \<open>\<open>BoardsDataStore.Data\<close>\<close>

record data =
  configOptions :: "configOption list"
  programmers :: "programmer list"
  selectedProgrammer :: "programmer option"
  defaultProgrammerId :: "string option"

text \<open>\<open>BoardsDataStore.Data.EMPTY\<close>\<close>

definition EMPTY :: data where
  "EMPTY = \<lparr>configOptions = [], programmers = [],
             selectedProgrammer = None, defaultProgrammerId = None\<rparr>"

record boardIdentifier =
  board_name :: string
  board_fqbn :: "string option"

record sketch =
  sketch_name :: string
  sketch_uri :: string

text \<open>\<open>type CurrentSketch = Sketch | 'invalid'\<close>\<close>

datatype currentSketch = Invalid | Opened sketch

record checkDebugEnabledParams =
  params_fqbn :: string
  params_programmer :: string
  params_sketchUri :: string

text \<open>
  JavaScript truthiness of a \<open>string | undefined\<close>: \<open>!s\<close> holds for
  \<open>undefined\<close> and for the empty string.
\<close>

fun falsy :: "string option \<Rightarrow> bool" where
  "falsy None = True"
| "falsy (Some s) = (s = [])"

section \<open>Messages (debug.ts, lines 419 to 458)\<close>

text \<open>
  The localisation function \<open>nls.localize\<close> and the two constants imported from
  \<open>common/nls\<close> are external to the sources at hand; they are parameters.
\<close>

record nls =
  localize :: "string \<Rightarrow> string \<Rightarrow> string \<Rightarrow> string"
  noSketchOpened :: string
  noBoardSelected :: string

definition sketchIsNotCompiled :: "nls \<Rightarrow> string \<Rightarrow> string" where
  "sketchIsNotCompiled L sketchName =
     localize L ''arduino/debug/sketchIsNotCompiled''
       ''Sketch '{0}' must be verified before starting a debug session'' sketchName"

definition noPlatformInstalledFor :: "nls \<Rightarrow> string \<Rightarrow> string" where
  "noPlatformInstalledFor L boardName =
     localize L ''arduino/debug/noPlatformInstalledFor''
       (''Platform is not installed for '{0}'' @ [CHR 0x27]) boardName"

definition debuggingNotSupported :: "nls \<Rightarrow> string \<Rightarrow> string" where
  "debuggingNotSupported L boardName =
     localize L ''arduino/debug/debuggingNotSupported''
       (''Debugging is not supported by '{0}'' @ [CHR 0x27]) boardName"

definition noProgrammerSelectedFor :: "nls \<Rightarrow> string \<Rightarrow> string" where
  "noProgrammerSelectedFor L boardName =
     localize L ''arduino/debug/noProgrammerSelectedFor''
       (''No programmer selected for '{0}'' @ [CHR 0x27]) boardName"

definition failedToAppend :: "string \<Rightarrow> string" where
  "failedToAppend fqbn =
     ''Failed to append boards config to the FQBN. Original FQBN was: '' @ fqbn"

section \<open>The debug-eligibility decision (debug.ts, isDebugEnabled)\<close>

text \<open>
  A callback of type \<open>(x) => MaybePromise<T>\<close> either yields a value, returns a
  promise that rejects, or throws while it is being called. Thrown values are of
  type \<open>unknown\<close>: the type variable \<open>'e\<close>.
\<close>

datatype ('a, 'e) outcome = Fulfilled 'a | Rejected 'e | Thrown 'e

text \<open>The calls made on the five callbacks, in the order they are made.\<close>

datatype 'e call =
    GetDetails string
  | GetData string
  | AppendConfigToFqbn string
  | CheckDebugEnabled checkDebugEnabledParams
  | IsSketchNotVerifiedError 'e sketch

text \<open>
  How the returned promise rejects: with an \<open>Error\<close> created by \<open>isDebugEnabled\<close>
  itself, or with a value that came out of a callback. \<open>Promise.all\<close> rejects with
  the reason of the promise that rejects first in time; time is not modelled, so
  \<open>Propagated es\<close> carries the reasons of all the rejected promises, in argument
  order, and stands for a rejection with one of them.
\<close>

datatype 'e rejection = Error string | Propagated "'e list"

text \<open>
  Modelled from the spec: \<open>CurrentSketch.isValid\<close> is declared in
  \<open>sketches-service-client-impl\<close>, which is not among the sources. It is the type
  guard telling a \<open>Sketch\<close> from \<open>undefined\<close> and from \<open>'invalid'\<close> (the two inputs
  the tests reject with \<open>noSketchOpened\<close>); the model returns the narrowed value.
\<close>

fun CurrentSketch_isValid :: "currentSketch option \<Rightarrow> sketch option" where
  "CurrentSketch_isValid None = None"
| "CurrentSketch_isValid (Some Invalid) = None"
| "CurrentSketch_isValid (Some (Opened sk)) = Some sk"

fun reasons :: "('a, 'e) outcome \<Rightarrow> 'e list" where
  "reasons (Fulfilled _) = []"
| "reasons (Rejected e) = [e]"
| "reasons (Thrown e) = [e]"

text \<open>
  \<open>await Promise.all([getDetails(fqbn), getData(fqbn), appendConfigToFqbn(fqbn)])\<close>:
  the array literal calls the three callbacks from left to right; a callback that
  throws ends the evaluation there, before the next one is called.
\<close>

definition fetchAll ::
  "string \<Rightarrow> (string \<Rightarrow> ('a, 'e) outcome) \<Rightarrow> (string \<Rightarrow> ('b, 'e) outcome) \<Rightarrow>
   (string \<Rightarrow> ('c, 'e) outcome) \<Rightarrow> 'e call list \<times> ('e list + 'a \<times> 'b \<times> 'c)" where
  "fetchAll fqbn getDetails getData appendConfigToFqbn =
     (case getDetails fqbn of
        Thrown e \<Rightarrow> ([GetDetails fqbn], Inl [e])
      | o1 \<Rightarrow>
       (case getData fqbn of
          Thrown e \<Rightarrow> ([GetDetails fqbn, GetData fqbn], Inl [e])
        | o2 \<Rightarrow>
         (case appendConfigToFqbn fqbn of
            Thrown e \<Rightarrow> ([GetDetails fqbn, GetData fqbn, AppendConfigToFqbn fqbn], Inl [e])
          | o3 \<Rightarrow>
            ([GetDetails fqbn, GetData fqbn, AppendConfigToFqbn fqbn],
             (case (o1, o2, o3) of
                (Fulfilled details, Fulfilled dat, Fulfilled fqbnWithConfig) \<Rightarrow>
                  Inr (details, dat, fqbnWithConfig)
              | _ \<Rightarrow> Inl (reasons o1 @ reasons o2 @ reasons o3))))))"

text \<open>The \<open>try { await checkDebugEnabled(params) } catch (err) { ... }\<close> block.\<close>

definition checkStage ::
  "nls \<Rightarrow> sketch \<Rightarrow> boardIdentifier \<Rightarrow> checkDebugEnabledParams \<Rightarrow>
   (checkDebugEnabledParams \<Rightarrow> (unit, 'e) outcome) \<Rightarrow>
   ('e \<Rightarrow> sketch \<Rightarrow> (bool, 'e) outcome) \<Rightarrow> 'e call list \<times> ('e rejection + unit)" where
  "checkStage L sk board params checkDebugEnabled isSketchNotVerifiedError =
     (let caught = (\<lambda>err.
            (case isSketchNotVerifiedError err sk of
               Fulfilled sketchNotVerified \<Rightarrow>
                 ([CheckDebugEnabled params, IsSketchNotVerifiedError err sk],
                  if sketchNotVerified
                  then Inl (Error (sketchIsNotCompiled L (sketch_name sk)))
                  else Inl (Error (debuggingNotSupported L (board_name board))))
             | Rejected e \<Rightarrow>
                 ([CheckDebugEnabled params, IsSketchNotVerifiedError err sk],
                  Inl (Propagated [e]))
             | Thrown e \<Rightarrow>
                 ([CheckDebugEnabled params, IsSketchNotVerifiedError err sk],
                  Inl (Propagated [e]))))
      in case checkDebugEnabled params of
           Fulfilled _ \<Rightarrow> ([CheckDebugEnabled params], Inr ())
         | Rejected err \<Rightarrow> caught err
         | Thrown err \<Rightarrow> caught err)"

definition isDebugEnabled ::
  "nls \<Rightarrow> currentSketch option \<Rightarrow> boardIdentifier option \<Rightarrow>
   (string \<Rightarrow> (boardDetails option, 'e) outcome) \<Rightarrow>
   (string \<Rightarrow> (data, 'e) outcome) \<Rightarrow>
   (string \<Rightarrow> (string option, 'e) outcome) \<Rightarrow>
   (checkDebugEnabledParams \<Rightarrow> (unit, 'e) outcome) \<Rightarrow>
   ('e \<Rightarrow> sketch \<Rightarrow> (bool, 'e) outcome) \<Rightarrow> 'e call list \<times> ('e rejection + unit)" where
  "isDebugEnabled L sketch board getDetails getData appendConfigToFqbn
       checkDebugEnabled isSketchNotVerifiedError =
     (case CurrentSketch_isValid sketch of
        None \<Rightarrow> ([], Inl (Error (noSketchOpened L)))
      | Some sk \<Rightarrow>
       (case board of
          None \<Rightarrow> ([], Inl (Error (noBoardSelected L)))
        | Some b \<Rightarrow>
          if falsy (board_fqbn b)
          then ([], Inl (Error (noPlatformInstalledFor L (board_name b))))
          else
            let fqbn = the (board_fqbn b) in
            (case fetchAll fqbn getDetails getData appendConfigToFqbn of
               (calls, Inl es) \<Rightarrow> (calls, Inl (Propagated es))
             | (calls, Inr (details, dat, fqbnWithConfig)) \<Rightarrow>
                 if details = None
                 then (calls, Inl (Error (noPlatformInstalledFor L (board_name b))))
                 else if falsy fqbnWithConfig
                 then (calls, Inl (Error (failedToAppend fqbn)))
                 else
                  (case selectedProgrammer dat of
                     None \<Rightarrow> (calls, Inl (Error (noProgrammerSelectedFor L (board_name b))))
                   | Some p \<Rightarrow>
                       let params = \<lparr>params_fqbn = the fqbnWithConfig,
                                     params_programmer = programmer_id p,
                                     params_sketchUri = sketch_uri sk\<rparr>;
                           (calls', r) = checkStage L sk b params checkDebugEnabled
                                           isSketchNotVerifiedError
                       in (calls @ calls', r)))))"

text \<open>The parameters of the calls of \<open>checkDebugEnabled\<close> in a list of calls.\<close>

fun checkCalls :: "'e call list \<Rightarrow> checkDebugEnabledParams list" where
  "checkCalls [] = []"
| "checkCalls (CheckDebugEnabled params # cs) = params # checkCalls cs"
| "checkCalls (_ # cs) = checkCalls cs"

text \<open>The three calls of the combined fetch.\<close>

definition fetchCalls :: "string \<Rightarrow> 'e call list" where
  "fetchCalls fqbn = [GetDetails fqbn, GetData fqbn, AppendConfigToFqbn fqbn]"

section \<open>The board configuration store (boards-data-store.ts)\<close>

text \<open>
  The storage service holds values of type \<open>unknown\<close> under string keys. A stored
  value either has the shape that \<open>BoardsDataStore.Data.is\<close> tests (an object
  whose \<open>configOptions\<close> and \<open>programmers\<close> are arrays, whose \<open>selectedProgrammer\<close>
  is absent or a programmer and whose \<open>defaultProgrammerId\<close> is absent or a
  string), and then TypeScript treats it as a \<open>Data\<close>, or it has not; a key
  that is absent reads as \<open>undefined\<close>.
\<close>

datatype stored = StoredData data | StoredOther string

text \<open>\<open>BoardsDataStore.Data.is\<close>, a type guard: the model returns the narrowed value.\<close>

fun Data_is :: "stored option \<Rightarrow> data option" where
  "Data_is (Some (StoredData d)) = Some d"
| "Data_is _ = None"

record boardsDataStoreChange =
  change_fqbn :: string
  change_data :: data

text \<open>
  The state that the store reads and writes: the storage service, the change
  events fired on \<open>onDidChangeEmitter\<close> (each with its list of changes), and the
  FQBNs for which the boards service was asked for board details. The logger
  is write-only and left out. The storage service is taken to succeed.
\<close>

record store =
  storage :: "string \<rightharpoonup> stored"
  fired :: "boardsDataStoreChange list list"
  requested :: "string list"

definition getStorageKey :: "string \<Rightarrow> string" where
  "getStorageKey fqbn = ''.arduinoIDE-configOptions-'' @ fqbn"

text \<open>
  \<open>loadBoardDetails\<close>: the boards service is external and a parameter; whatever
  it throws is caught and becomes \<open>undefined\<close>.
\<close>

definition loadBoardDetails ::
  "(string \<Rightarrow> (boardDetails option, 'e) outcome) \<Rightarrow> string \<Rightarrow> store \<Rightarrow>
   boardDetails option \<times> store" where
  "loadBoardDetails boardsService fqbn s =
     (let s' = s\<lparr>requested := requested s @ [fqbn]\<rparr>
      in case boardsService fqbn of
           Fulfilled details \<Rightarrow> (details, s')
         | Rejected err \<Rightarrow> (None, s')
         | Thrown err \<Rightarrow> (None, s'))"

text \<open>
  The second parameter of \<open>findDefaultProgrammer\<close> has type
  \<open>string | undefined | BoardsDataStore.Data\<close>.
\<close>

datatype idOrData = AnId string | AData data

fun findDefaultProgrammer :: "programmer list \<Rightarrow> idOrData option \<Rightarrow> programmer option" where
  "findDefaultProgrammer ps None = None"
| "findDefaultProgrammer ps (Some (AnId s)) =
     (if s = [] then None else find (\<lambda>p. Some (programmer_id p) = Some s) ps)"
| "findDefaultProgrammer ps (Some (AData d)) =
     find (\<lambda>p. Some (programmer_id p) = defaultProgrammerId d) ps"

definition createDataStoreEntry :: "boardDetails \<Rightarrow> data" where
  "createDataStoreEntry details =
     (let cos = details_configOptions details;
          ps = details_programmers details;
          dpid = details_defaultProgrammerId details;
          sel = findDefaultProgrammer ps (map_option AnId dpid)
      in \<lparr>configOptions = cos, programmers = ps, selectedProgrammer = sel,
          defaultProgrammerId = (if falsy dpid then None else dpid)\<rparr>)"

definition setData :: "string \<Rightarrow> data \<Rightarrow> store \<Rightarrow> store" where
  "setData fqbn d s = s\<lparr>storage := (storage s)(getStorageKey fqbn \<mapsto> StoredData d)\<rparr>"

definition fireChanged :: "boardsDataStoreChange list \<Rightarrow> store \<Rightarrow> store" where
  "fireChanged changes s = s\<lparr>fired := fired s @ [changes]\<rparr>"

definition getData ::
  "(string \<Rightarrow> (boardDetails option, 'e) outcome) \<Rightarrow> string option \<Rightarrow> store \<Rightarrow>
   data \<times> store" where
  "getData boardsService fqbn s =
     (if falsy fqbn then (EMPTY, s)
      else
        let f = the fqbn;
            key = getStorageKey f
        in case Data_is (storage s key) of
             Some storedData \<Rightarrow> (storedData, s)
           | None \<Rightarrow>
              (case loadBoardDetails boardsService f s of
                 (None, s1) \<Rightarrow> (EMPTY, s1)
               | (Some details, s1) \<Rightarrow>
                   let d = createDataStoreEntry details
                   in (d, s1\<lparr>storage := (storage s1)(key \<mapsto> StoredData d)\<rparr>)))"

text \<open>
  \<open>ConfigOption.decorate\<close> is declared in \<open>common/protocol\<close>, which is not among the
  sources; it is the parameter \<open>decorate\<close>.
\<close>

definition appendConfigToFqbn ::
  "(string \<Rightarrow> configOption list \<Rightarrow> string) \<Rightarrow>
   (string \<Rightarrow> (boardDetails option, 'e) outcome) \<Rightarrow> string option \<Rightarrow> store \<Rightarrow>
   string option \<times> store" where
  "appendConfigToFqbn decorate boardsService fqbn s =
     (if falsy fqbn then (None, s)
      else
        let (d, s1) = getData boardsService fqbn s
        in (Some (decorate (the fqbn) (configOptions d)), s1))"

text \<open>
  \<open>Programmer.equals\<close> is declared in \<open>common/protocol\<close> too; it is the parameter
  \<open>equals\<close>. \<open>deepClone\<close> is the identity on values. Programmers are objects, so
  \<open>!programmers.find(...)\<close> holds exactly when nothing is found.
\<close>

definition selectProgrammer ::
  "(programmer \<Rightarrow> programmer \<Rightarrow> bool) \<Rightarrow>
   (string \<Rightarrow> (boardDetails option, 'e) outcome) \<Rightarrow> string \<Rightarrow> programmer \<Rightarrow> store \<Rightarrow>
   bool \<times> store" where
  "selectProgrammer equals boardsService fqbn sel s =
     (let (storedData, s1) = getData boardsService (Some fqbn) s
      in case find (\<lambda>p. equals sel p) (programmers storedData) of
           None \<Rightarrow> (False, s1)
         | Some _ \<Rightarrow>
             let d = storedData\<lparr>selectedProgrammer := Some sel\<rparr>;
                 s2 = setData fqbn d s1
             in (True, fireChanged [\<lparr>change_fqbn = fqbn, change_data = d\<rparr>] s2))"

text \<open>
  The loop of \<open>selectConfigOption\<close> over the values of the option that was found:
  it returns the values as the loop leaves them, and the flag \<open>updated\<close>.
\<close>

fun selectValues :: "string \<Rightarrow> configValue list \<Rightarrow> bool \<Rightarrow> configValue list \<times> bool" where
  "selectValues selectedValue [] updated = ([], updated)"
| "selectValues selectedValue (v # vs) updated =
     (if configValue_value v = selectedValue
      then (let (vs', u) = selectValues selectedValue vs True
            in (v\<lparr>configValue_selected := True\<rparr> # vs', u))
      else (let (vs', u) = selectValues selectedValue vs updated
            in (v\<lparr>configValue_selected := False\<rparr> # vs', u)))"

text \<open>
  The loop mutates the object that \<open>find\<close> returned, which is the first element of
  \<open>configOptions\<close> with the given name: in the cloned data, that element gets the
  new values.
\<close>

fun mutateFound :: "string \<Rightarrow> configValue list \<Rightarrow> configOption list \<Rightarrow> configOption list" where
  "mutateFound opt vs [] = []"
| "mutateFound opt vs (c # cs) =
     (if configOption_option c = opt then c\<lparr>configOption_values := vs\<rparr> # cs
      else c # mutateFound opt vs cs)"

definition selectConfigOption ::
  "(string \<Rightarrow> (boardDetails option, 'e) outcome) \<Rightarrow> string \<Rightarrow> string \<Rightarrow> string \<Rightarrow> store \<Rightarrow>
   bool \<times> store" where
  "selectConfigOption boardsService fqbn opt selectedValue s =
     (let (d0, s1) = getData boardsService (Some fqbn) s
      in case find (\<lambda>c. configOption_option c = opt) (configOptions d0) of
           None \<Rightarrow> (False, s1)
         | Some configOption \<Rightarrow>
             let (vs, updated) = selectValues selectedValue (configOption_values configOption) False
             in if \<not> updated then (False, s1)
                else
                  let d = d0\<lparr>configOptions := mutateFound opt vs (configOptions d0)\<rparr>;
                      s2 = setData fqbn d s1
                  in (True, fireChanged [\<lparr>change_fqbn = fqbn, change_data = d\<rparr>] s2))"

text \<open>
  When \<open>selectConfigOption\<close> goes through: \<open>find\<close> gives an option, and the loop
  sets \<open>updated\<close>.
\<close>

definition selectable :: "string \<Rightarrow> string \<Rightarrow> data \<Rightarrow> bool" where
  "selectable opt sv d \<longleftrightarrow>
     (case find (\<lambda>c. configOption_option c = opt) (configOptions d) of
        None \<Rightarrow> False
      | Some c \<Rightarrow> sv \<in> set (map configValue_value (configOption_values c)))"

section \<open>Compile for debug (debug.ts, lines 274 to 284)\<close>

text \<open>
  \<open>window.localStorage\<close> maps keys to strings (\<open>getItem\<close> gives \<open>null\<close> for a key
  that is absent); \<open>menuUpdates\<close> counts the calls of \<open>menuManager.update()\<close>.
\<close>

record debugState =
  localStorage :: "string \<rightharpoonup> string"
  menuUpdates :: nat

definition COMPILE_FOR_DEBUG_KEY :: string where
  "COMPILE_FOR_DEBUG_KEY = ''arduino-compile-for-debug''"

definition compileForDebug :: "debugState \<Rightarrow> bool" where
  "compileForDebug s = (localStorage s COMPILE_FOR_DEBUG_KEY = Some ''true'')"

text \<open>JavaScript's \<open>String(b)\<close> for a boolean \<open>b\<close>.\<close>

definition String_of_boolean :: "bool \<Rightarrow> string" where
  "String_of_boolean b = (if b then ''true'' else ''false'')"

definition toggleCompileForDebug :: "debugState \<Rightarrow> debugState" where
  "toggleCompileForDebug s =
     (let oldState = compileForDebug s;
          newState = \<not> oldState
      in s\<lparr>localStorage := (localStorage s)(COMPILE_FOR_DEBUG_KEY \<mapsto> String_of_boolean newState),
           menuUpdates := Suc (menuUpdates s)\<rparr>)"

section \<open>Fixtures (debug.test.ts)\<close>

definition test_fqbn :: string where "test_fqbn = ''a:b:c''"

definition test_board :: boardIdentifier where
  "test_board = \<lparr>board_name = ''ABC'', board_fqbn = Some test_fqbn\<rparr>"

definition test_sketch :: sketch where
  "test_sketch = \<lparr>sketch_name = ''My_Sketch'', sketch_uri = ''file:///path/to/mySketch/''\<rparr>"

definition p1 :: programmer where
  "p1 = \<lparr>programmer_name = ''P1'', programmer_platform = ''The platform'', programmer_id = ''p1''\<rparr>"

definition p2 :: programmer where
  "p2 = \<lparr>programmer_name = ''P2'', programmer_platform = ''The platform'', programmer_id = ''p2''\<rparr>"

definition test_data :: data where
  "test_data = \<lparr>configOptions = [], programmers = [p1, p2],
                 selectedProgrammer = Some p1, defaultProgrammerId = Some ''p1''\<rparr>"

definition test_boardDetails :: boardDetails where
  "test_boardDetails = \<lparr>details_configOptions = [], details_programmers = [p1, p2],
                         details_defaultProgrammerId = Some ''p1''\<rparr>"

text \<open>Callbacks: \<open>() => v\<close>, \<open>(fqbn) => fqbn\<close>, and the tests' \<open>unexpectedCall()\<close>.\<close>

definition yields :: "'a \<Rightarrow> 'k \<Rightarrow> ('a, string) outcome" where
  "yields v = (\<lambda>_. Fulfilled v)"

definition sameFqbn :: "string \<Rightarrow> (string option, string) outcome" where
  "sameFqbn = (\<lambda>fqbn. Fulfilled (Some fqbn))"

definition throws :: "string \<Rightarrow> 'k \<Rightarrow> ('a, string) outcome" where
  "throws msg = (\<lambda>_. Thrown msg)"

definition unexpectedCall :: "'k \<Rightarrow> ('a, string) outcome" where
  "unexpectedCall = throws ''unexpected call''"

definition unexpectedCall2 :: "'k \<Rightarrow> 'l \<Rightarrow> ('a, string) outcome" where
  "unexpectedCall2 = (\<lambda>_. unexpectedCall)"

definition classifies :: "bool \<Rightarrow> string \<Rightarrow> sketch \<Rightarrow> (bool, string) outcome" where
  "classifies b = (\<lambda>_ _. Fulfilled b)"

text \<open>A localisation that keeps the key and the argument, and English constants.\<close>

definition test_nls :: nls where
  "test_nls = \<lparr>localize = (\<lambda>key dflt arg. key @ ''|'' @ arg),
               noSketchOpened = ''No sketch opened'',
               noBoardSelected = ''No board selected''\<rparr>"

definition test_params :: checkDebugEnabledParams where
  "test_params = \<lparr>params_fqbn = ''a:b:c'', params_programmer = ''p1'',
                   params_sketchUri = ''file:///path/to/mySketch/''\<rparr>"

text \<open>Fixtures for the store: \<open>Programmer.equals\<close> compares the three fields.\<close>

definition sameProgrammer :: "programmer \<Rightarrow> programmer \<Rightarrow> bool" where
  "sameProgrammer left right =
     (programmer_id left = programmer_id right \<and> programmer_name left = programmer_name right
      \<and> programmer_platform left = programmer_platform right)"

definition p3 :: programmer where
  "p3 = \<lparr>programmer_name = ''P3'', programmer_platform = ''The platform'', programmer_id = ''p3''\<rparr>"

definition noDecoration :: "string \<Rightarrow> configOption list \<Rightarrow> string" where
  "noDecoration fqbn cos = fqbn"

definition emptyStore :: store where
  "emptyStore = \<lparr>storage = Map.empty, fired = [], requested = []\<rparr>"

definition storeWith :: "string \<Rightarrow> data \<Rightarrow> store" where
  "storeWith fqbn d = setData fqbn d emptyStore"

definition knownBoards :: "string \<Rightarrow> (boardDetails option, string) outcome" where
  "knownBoards fqbn =
     (if fqbn = test_fqbn then Fulfilled (Some test_boardDetails)
      else Rejected ''loading board data: platform is not installed'')"

definition cpuOption :: configOption where
  "cpuOption = \<lparr>configOption_option = ''cpu'',
                 configOption_values =
                   [\<lparr>configValue_value = ''atmega328'', configValue_selected = True\<rparr>,
                    \<lparr>configValue_value = ''atmega168'', configValue_selected = False\<rparr>]\<rparr>"

definition cpuOptionAgain :: configOption where
  "cpuOptionAgain = \<lparr>configOption_option = ''cpu'',
                      configOption_values =
                        [\<lparr>configValue_value = ''atmega2560'', configValue_selected = False\<rparr>]\<rparr>"

definition test_dataWithOptions :: data where
  "test_dataWithOptions = test_data\<lparr>configOptions := [cpuOption, cpuOptionAgain]\<rparr>"

definition unnamedProgrammer :: programmer where
  "unnamedProgrammer = \<lparr>programmer_name = ''P0'', programmer_platform = ''The platform'',
                         programmer_id = []\<rparr>"

definition test_detailsEmptyDefault :: boardDetails where
  "test_detailsEmptyDefault = \<lparr>details_configOptions = [],
                                details_programmers = [unnamedProgrammer],
                                details_defaultProgrammerId = Some []\<rparr>"

section \<open>Properties of the debug-eligibility decision\<close>


lemma fetchAll_Fulfilled:
  "gDet f = Fulfilled d \<Longrightarrow> gDat f = Fulfilled dat \<Longrightarrow> app f = Fulfilled w \<Longrightarrow>
   fetchAll f gDet gDat app = (fetchCalls f, Inr (d, dat, w))"
  by (simp add: fetchAll_def fetchCalls_def)

lemma fetchAll_failed:
  "\<not> (\<exists>d dat w. gDet f = Fulfilled d \<and> gDat f = Fulfilled dat \<and> app f = Fulfilled w) \<Longrightarrow>
   \<exists>calls es. fetchAll f gDet gDat app = (calls, Inl es) \<and> set calls \<subseteq> set (fetchCalls f)"
  by (auto simp add: fetchAll_def fetchCalls_def split: outcome.splits)

lemma fetchAll_Inr:
  "fetchAll f gDet gDat app = (calls, Inr (d, dat, w)) \<Longrightarrow>
   gDet f = Fulfilled d \<and> gDat f = Fulfilled dat \<and> app f = Fulfilled w \<and> calls = fetchCalls f"
  by (auto simp add: fetchAll_def fetchCalls_def split: outcome.splits)

lemma checkStage_Inr:
  "snd (checkStage L sk b params check isNV) = Inr () \<longleftrightarrow> check params = Fulfilled ()"
  by (auto simp add: checkStage_def Let_def split: outcome.splits)

lemma checkStage_Fulfilled:
  "check params = Fulfilled u \<Longrightarrow> checkStage L sk b params check isNV = ([CheckDebugEnabled params], Inr ())"
  by (simp add: checkStage_def)

text \<open>
  Claim C1. For every combination of inputs, \<open>isDebugEnabled\<close> runs its checks in
  one order: validity of the current sketch, selection of a board, presence of
  the board's FQBN, then, after the combined fetches, presence of the board
  details, presence of the FQBN with its configuration, presence of a selected
  programmer, and last the debug check of the CLI. It rejects at the first check
  that fails, whatever the later checks would give, and the calls it has made by
  then are those of the earlier stages only: none at all when the sketch is not
  valid, the board is undefined or the FQBN is missing; the three fetches only when
  one of them fails or when the details, the decorated FQBN or the programmer is
  missing; \<open>checkDebugEnabled\<close> once all of these are there, and
  \<open>isSketchNotVerifiedError\<close> only after \<open>checkDebugEnabled\<close> has failed.
\<close>

theorem isDebugEnabled_order:
  "(CurrentSketch_isValid sketch = None \<longrightarrow>
      isDebugEnabled L sketch board gDet gDat app check isNV
        = ([], Inl (Error (noSketchOpened L))))
 \<and> (CurrentSketch_isValid sketch = Some sk \<and> board = None \<longrightarrow>
      isDebugEnabled L sketch board gDet gDat app check isNV
        = ([], Inl (Error (noBoardSelected L))))
 \<and> (CurrentSketch_isValid sketch = Some sk \<and> board = Some b \<and> falsy (board_fqbn b) \<longrightarrow>
      isDebugEnabled L sketch board gDet gDat app check isNV
        = ([], Inl (Error (noPlatformInstalledFor L (board_name b)))))
 \<and> (CurrentSketch_isValid sketch = Some sk \<and> board = Some b \<and> board_fqbn b = Some f \<and> f \<noteq> []
      \<and> \<not> (\<exists>d dat w. gDet f = Fulfilled d \<and> gDat f = Fulfilled dat \<and> app f = Fulfilled w) \<longrightarrow>
      (\<exists>es. snd (isDebugEnabled L sketch board gDet gDat app check isNV) = Inl (Propagated es))
      \<and> set (fst (isDebugEnabled L sketch board gDet gDat app check isNV)) \<subseteq> set (fetchCalls f))
 \<and> (CurrentSketch_isValid sketch = Some sk \<and> board = Some b \<and> board_fqbn b = Some f \<and> f \<noteq> []
      \<and> gDet f = Fulfilled details \<and> gDat f = Fulfilled dat \<and> app f = Fulfilled w \<longrightarrow>
      (details = None \<longrightarrow>
         isDebugEnabled L sketch board gDet gDat app check isNV
           = (fetchCalls f, Inl (Error (noPlatformInstalledFor L (board_name b)))))
    \<and> (details \<noteq> None \<and> falsy w \<longrightarrow>
         isDebugEnabled L sketch board gDet gDat app check isNV
           = (fetchCalls f, Inl (Error (failedToAppend f))))
    \<and> (details \<noteq> None \<and> \<not> falsy w \<and> selectedProgrammer dat = None \<longrightarrow>
         isDebugEnabled L sketch board gDet gDat app check isNV
           = (fetchCalls f, Inl (Error (noProgrammerSelectedFor L (board_name b)))))
    \<and> (details \<noteq> None \<and> w = Some fc \<and> fc \<noteq> [] \<and> selectedProgrammer dat = Some p \<longrightarrow>
         (let params = \<lparr>params_fqbn = fc, params_programmer = programmer_id p,
                        params_sketchUri = sketch_uri sk\<rparr>;
              run = isDebugEnabled L sketch board gDet gDat app check isNV
          in (case check params of
                Fulfilled u \<Rightarrow> run = (fetchCalls f @ [CheckDebugEnabled params], Inr ())
              | Rejected err \<Rightarrow>
                  fst run = fetchCalls f @ [CheckDebugEnabled params, IsSketchNotVerifiedError err sk]
                  \<and> snd run \<noteq> Inr ()
              | Thrown err \<Rightarrow>
                  fst run = fetchCalls f @ [CheckDebugEnabled params, IsSketchNotVerifiedError err sk]
                  \<and> snd run \<noteq> Inr ()))))"
proof (intro conjI impI)
  assume "CurrentSketch_isValid sketch = None"
  then show "isDebugEnabled L sketch board gDet gDat app check isNV
        = ([], Inl (Error (noSketchOpened L)))"
    by (simp add: isDebugEnabled_def)
next
  assume "CurrentSketch_isValid sketch = Some sk \<and> board = None"
  then show "isDebugEnabled L sketch board gDet gDat app check isNV
        = ([], Inl (Error (noBoardSelected L)))"
    by (simp add: isDebugEnabled_def)
next
  assume "CurrentSketch_isValid sketch = Some sk \<and> board = Some b \<and> falsy (board_fqbn b)"
  then show "isDebugEnabled L sketch board gDet gDat app check isNV
        = ([], Inl (Error (noPlatformInstalledFor L (board_name b))))"
    by (simp add: isDebugEnabled_def)
next
  assume a: "CurrentSketch_isValid sketch = Some sk \<and> board = Some b \<and> board_fqbn b = Some f \<and> f \<noteq> []
      \<and> \<not> (\<exists>d dat w. gDet f = Fulfilled d \<and> gDat f = Fulfilled dat \<and> app f = Fulfilled w)"
  then obtain calls es where
    fa: "fetchAll f gDet gDat app = (calls, Inl es)" "set calls \<subseteq> set (fetchCalls f)"
    using fetchAll_failed [of gDet f gDat app] by blast
  from a fa show "\<exists>es. snd (isDebugEnabled L sketch board gDet gDat app check isNV) = Inl (Propagated es)"
    by (simp add: isDebugEnabled_def)
  from a fa show "set (fst (isDebugEnabled L sketch board gDet gDat app check isNV)) \<subseteq> set (fetchCalls f)"
    by (simp add: isDebugEnabled_def)
next
  assume a: "CurrentSketch_isValid sketch = Some sk \<and> board = Some b \<and> board_fqbn b = Some f \<and> f \<noteq> []
      \<and> gDet f = Fulfilled details \<and> gDat f = Fulfilled dat \<and> app f = Fulfilled w"
  then have fa: "fetchAll f gDet gDat app = (fetchCalls f, Inr (details, dat, w))"
    by (simp add: fetchAll_Fulfilled)
  { assume "details = None"
    with a fa show "isDebugEnabled L sketch board gDet gDat app check isNV
           = (fetchCalls f, Inl (Error (noPlatformInstalledFor L (board_name b))))"
      by (auto simp add: isDebugEnabled_def) }
  { assume "details \<noteq> None \<and> falsy w"
    with a fa show "isDebugEnabled L sketch board gDet gDat app check isNV
           = (fetchCalls f, Inl (Error (failedToAppend f)))"
      by (auto simp add: isDebugEnabled_def) }
  { assume "details \<noteq> None \<and> \<not> falsy w \<and> selectedProgrammer dat = None"
    with a fa show "isDebugEnabled L sketch board gDet gDat app check isNV
           = (fetchCalls f, Inl (Error (noProgrammerSelectedFor L (board_name b))))"
      by (auto simp add: isDebugEnabled_def) }
  { assume "details \<noteq> None \<and> w = Some fc \<and> fc \<noteq> [] \<and> selectedProgrammer dat = Some p"
    with a fa show "let params = \<lparr>params_fqbn = fc, params_programmer = programmer_id p,
                        params_sketchUri = sketch_uri sk\<rparr>;
              run = isDebugEnabled L sketch board gDet gDat app check isNV
          in (case check params of
                Fulfilled u \<Rightarrow> run = (fetchCalls f @ [CheckDebugEnabled params], Inr ())
              | Rejected err \<Rightarrow>
                  fst run = fetchCalls f @ [CheckDebugEnabled params, IsSketchNotVerifiedError err sk]
                  \<and> snd run \<noteq> Inr ()
              | Thrown err \<Rightarrow>
                  fst run = fetchCalls f @ [CheckDebugEnabled params, IsSketchNotVerifiedError err sk]
                  \<and> snd run \<noteq> Inr ())"
      by (auto simp add: isDebugEnabled_def checkStage_def Let_def split: outcome.splits) }
qed


theorem isDebugEnabled_order_witness:
  "isDebugEnabled test_nls None (Some test_board)
      unexpectedCall unexpectedCall unexpectedCall unexpectedCall unexpectedCall2
     = ([], Inl (Error ''No sketch opened''))
 \<and> isDebugEnabled test_nls (Some (Opened test_sketch)) None
      unexpectedCall unexpectedCall unexpectedCall unexpectedCall unexpectedCall2
     = ([], Inl (Error ''No board selected''))
 \<and> isDebugEnabled test_nls (Some (Opened test_sketch)) (Some (test_board\<lparr>board_fqbn := None\<rparr>))
      unexpectedCall unexpectedCall unexpectedCall unexpectedCall unexpectedCall2
     = ([], Inl (Error (noPlatformInstalledFor test_nls ''ABC'')))
 \<and> set (fst (isDebugEnabled test_nls (Some (Opened test_sketch)) (Some test_board)
      (yields (Some test_boardDetails)) unexpectedCall sameFqbn unexpectedCall unexpectedCall2))
     \<subseteq> set (fetchCalls test_fqbn)
 \<and> isDebugEnabled test_nls (Some (Opened test_sketch)) (Some test_board)
      (yields None) (yields test_data) (yields None) unexpectedCall unexpectedCall2
     = (fetchCalls test_fqbn, Inl (Error (noPlatformInstalledFor test_nls ''ABC'')))
 \<and> isDebugEnabled test_nls (Some (Opened test_sketch)) (Some test_board)
      (yields (Some test_boardDetails)) (yields (test_data\<lparr>selectedProgrammer := None\<rparr>))
      (yields None) unexpectedCall unexpectedCall2
     = (fetchCalls test_fqbn, Inl (Error (failedToAppend test_fqbn)))
 \<and> isDebugEnabled test_nls (Some (Opened test_sketch)) (Some test_board)
      (yields (Some test_boardDetails)) (yields (test_data\<lparr>selectedProgrammer := None\<rparr>))
      sameFqbn unexpectedCall unexpectedCall2
     = (fetchCalls test_fqbn, Inl (Error (noProgrammerSelectedFor test_nls ''ABC'')))
 \<and> isDebugEnabled test_nls (Some (Opened test_sketch)) (Some test_board)
      (yields (Some test_boardDetails)) (yields test_data) sameFqbn (yields ()) unexpectedCall2
     = (fetchCalls test_fqbn @ [CheckDebugEnabled test_params], Inr ())"
proof -
  have 1: "isDebugEnabled test_nls None (Some test_board)
      unexpectedCall unexpectedCall unexpectedCall unexpectedCall unexpectedCall2
     = ([], Inl (Error ''No sketch opened''))"
    using isDebugEnabled_order [where L = test_nls and sketch = None and board = "Some test_board"
        and gDet = unexpectedCall and gDat = unexpectedCall and app = unexpectedCall
        and check = unexpectedCall and isNV = unexpectedCall2]
    by (simp add: test_nls_def)
  have 2: "isDebugEnabled test_nls (Some (Opened test_sketch)) None
      unexpectedCall unexpectedCall unexpectedCall unexpectedCall unexpectedCall2
     = ([], Inl (Error ''No board selected''))"
    using isDebugEnabled_order [where L = test_nls and sketch = "Some (Opened test_sketch)"
        and board = None and sk = test_sketch
        and gDet = unexpectedCall and gDat = unexpectedCall and app = unexpectedCall
        and check = unexpectedCall and isNV = unexpectedCall2]
    by (simp add: test_nls_def)
  have 3: "isDebugEnabled test_nls (Some (Opened test_sketch)) (Some (test_board\<lparr>board_fqbn := None\<rparr>))
      unexpectedCall unexpectedCall unexpectedCall unexpectedCall unexpectedCall2
     = ([], Inl (Error (noPlatformInstalledFor test_nls ''ABC'')))"
    using isDebugEnabled_order [where L = test_nls and sketch = "Some (Opened test_sketch)"
        and board = "Some (test_board\<lparr>board_fqbn := None\<rparr>)" and sk = test_sketch
        and b = "test_board\<lparr>board_fqbn := None\<rparr>"
        and gDet = unexpectedCall and gDat = unexpectedCall and app = unexpectedCall
        and check = unexpectedCall and isNV = unexpectedCall2]
    by (simp add: test_board_def)
  have 4: "set (fst (isDebugEnabled test_nls (Some (Opened test_sketch)) (Some test_board)
      (yields (Some test_boardDetails)) unexpectedCall sameFqbn unexpectedCall unexpectedCall2))
     \<subseteq> set (fetchCalls test_fqbn)"
    using isDebugEnabled_order [where L = test_nls and sketch = "Some (Opened test_sketch)"
        and board = "Some test_board" and sk = test_sketch and b = test_board and f = test_fqbn
        and gDet = "yields (Some test_boardDetails)" and gDat = unexpectedCall and app = sameFqbn
        and check = unexpectedCall and isNV = unexpectedCall2]
    by (simp add: test_board_def test_fqbn_def unexpectedCall_def throws_def)
  have 5: "isDebugEnabled test_nls (Some (Opened test_sketch)) (Some test_board)
      (yields None) (yields test_data) (yields None) unexpectedCall unexpectedCall2
     = (fetchCalls test_fqbn, Inl (Error (noPlatformInstalledFor test_nls ''ABC'')))"
    using isDebugEnabled_order [where L = test_nls and sketch = "Some (Opened test_sketch)"
        and board = "Some test_board" and sk = test_sketch and b = test_board and f = test_fqbn
        and gDet = "yields None" and gDat = "yields test_data" and app = "yields None"
        and details = None and dat = test_data and w = None
        and check = unexpectedCall and isNV = unexpectedCall2]
    by (simp add: test_board_def test_fqbn_def yields_def)
  have 6: "isDebugEnabled test_nls (Some (Opened test_sketch)) (Some test_board)
      (yields (Some test_boardDetails)) (yields (test_data\<lparr>selectedProgrammer := None\<rparr>))
      (yields None) unexpectedCall unexpectedCall2
     = (fetchCalls test_fqbn, Inl (Error (failedToAppend test_fqbn)))"
    using isDebugEnabled_order [where L = test_nls and sketch = "Some (Opened test_sketch)"
        and board = "Some test_board" and sk = test_sketch and b = test_board and f = test_fqbn
        and gDet = "yields (Some test_boardDetails)"
        and gDat = "yields (test_data\<lparr>selectedProgrammer := None\<rparr>)" and app = "yields None"
        and details = "Some test_boardDetails"
        and dat = "test_data\<lparr>selectedProgrammer := None\<rparr>" and w = None
        and check = unexpectedCall and isNV = unexpectedCall2]
    by (simp add: test_board_def test_fqbn_def yields_def)
  have 7: "isDebugEnabled test_nls (Some (Opened test_sketch)) (Some test_board)
      (yields (Some test_boardDetails)) (yields (test_data\<lparr>selectedProgrammer := None\<rparr>))
      sameFqbn unexpectedCall unexpectedCall2
     = (fetchCalls test_fqbn, Inl (Error (noProgrammerSelectedFor test_nls ''ABC'')))"
    using isDebugEnabled_order [where L = test_nls and sketch = "Some (Opened test_sketch)"
        and board = "Some test_board" and sk = test_sketch and b = test_board and f = test_fqbn
        and gDet = "yields (Some test_boardDetails)"
        and gDat = "yields (test_data\<lparr>selectedProgrammer := None\<rparr>)" and app = sameFqbn
        and details = "Some test_boardDetails"
        and dat = "test_data\<lparr>selectedProgrammer := None\<rparr>" and w = "Some test_fqbn"
        and check = unexpectedCall and isNV = unexpectedCall2]
    by (simp add: test_board_def test_fqbn_def yields_def sameFqbn_def)
  have 8: "isDebugEnabled test_nls (Some (Opened test_sketch)) (Some test_board)
      (yields (Some test_boardDetails)) (yields test_data) sameFqbn (yields ()) unexpectedCall2
     = (fetchCalls test_fqbn @ [CheckDebugEnabled test_params], Inr ())"
    using isDebugEnabled_order [where L = test_nls and sketch = "Some (Opened test_sketch)"
        and board = "Some test_board" and sk = test_sketch and b = test_board and f = test_fqbn
        and gDet = "yields (Some test_boardDetails)"
        and gDat = "yields test_data" and app = sameFqbn
        and details = "Some test_boardDetails"
        and dat = test_data and w = "Some test_fqbn" and fc = test_fqbn and p = p1
        and check = "yields ()" and isNV = unexpectedCall2]
    by (simp add: test_board_def test_fqbn_def yields_def sameFqbn_def test_data_def
        test_params_def p1_def test_sketch_def Let_def)
  from 1 2 3 4 5 6 7 8 show ?thesis by blast
qed

text \<open>
  Claim C2. \<open>isDebugEnabled\<close> maps each failure to its own message, a failure
  being the first check that does not pass. It rejects with an \<open>Error\<close> whose
  message is \<open>noSketchOpened\<close> when the current sketch is undefined or not a valid
  sketch; \<open>noBoardSelected\<close> when the board is undefined;
  \<open>noPlatformInstalledFor(board.name)\<close> when the FQBN of the board is undefined or
  \<open>getDetails\<close> yields undefined; the message that the configuration could not be
  appended to the FQBN when \<open>appendConfigToFqbn\<close> yields undefined;
  \<open>noProgrammerSelectedFor(board.name)\<close> when the data has no selected programmer;
  \<open>sketchIsNotCompiled(sketch.name)\<close> when \<open>checkDebugEnabled\<close> fails and
  \<open>isSketchNotVerifiedError\<close> answers true for its error; and
  \<open>debuggingNotSupported(board.name)\<close> when \<open>checkDebugEnabled\<close> fails and
  \<open>isSketchNotVerifiedError\<close> answers false.
\<close>

theorem isDebugEnabled_messages:
  "(sketch = None \<or> sketch = Some Invalid \<longrightarrow>
      snd (isDebugEnabled L sketch board gDet gDat app check isNV)
        = Inl (Error (noSketchOpened L)))
 \<and> (sketch = Some (Opened sk) \<and> board = None \<longrightarrow>
      snd (isDebugEnabled L sketch board gDet gDat app check isNV)
        = Inl (Error (noBoardSelected L)))
 \<and> (sketch = Some (Opened sk) \<and> board = Some b \<and> board_fqbn b = None \<longrightarrow>
      snd (isDebugEnabled L sketch board gDet gDat app check isNV)
        = Inl (Error (noPlatformInstalledFor L (board_name b))))
 \<and> (sketch = Some (Opened sk) \<and> board = Some b \<and> board_fqbn b = Some f
      \<and> gDet f = Fulfilled details \<and> gDat f = Fulfilled dat \<and> app f = Fulfilled w \<longrightarrow>
      (details = None \<longrightarrow>
         snd (isDebugEnabled L sketch board gDet gDat app check isNV)
           = Inl (Error (noPlatformInstalledFor L (board_name b))))
    \<and> (f \<noteq> [] \<and> details \<noteq> None \<and> w = None \<longrightarrow>
         snd (isDebugEnabled L sketch board gDet gDat app check isNV)
           = Inl (Error (failedToAppend f)))
    \<and> (f \<noteq> [] \<and> details \<noteq> None \<and> \<not> falsy w \<and> selectedProgrammer dat = None \<longrightarrow>
         snd (isDebugEnabled L sketch board gDet gDat app check isNV)
           = Inl (Error (noProgrammerSelectedFor L (board_name b))))
    \<and> (f \<noteq> [] \<and> details \<noteq> None \<and> w = Some fc \<and> fc \<noteq> [] \<and> selectedProgrammer dat = Some p
        \<and> (check \<lparr>params_fqbn = fc, params_programmer = programmer_id p,
                     params_sketchUri = sketch_uri sk\<rparr> = Rejected err
           \<or> check \<lparr>params_fqbn = fc, params_programmer = programmer_id p,
                     params_sketchUri = sketch_uri sk\<rparr> = Thrown err) \<longrightarrow>
         (isNV err sk = Fulfilled True \<longrightarrow>
            snd (isDebugEnabled L sketch board gDet gDat app check isNV)
              = Inl (Error (sketchIsNotCompiled L (sketch_name sk))))
       \<and> (isNV err sk = Fulfilled False \<longrightarrow>
            snd (isDebugEnabled L sketch board gDet gDat app check isNV)
              = Inl (Error (debuggingNotSupported L (board_name b))))))"
proof (intro conjI impI)
  assume "sketch = None \<or> sketch = Some Invalid"
  then show "snd (isDebugEnabled L sketch board gDet gDat app check isNV)
        = Inl (Error (noSketchOpened L))"
    by (auto simp add: isDebugEnabled_def)
next
  assume "sketch = Some (Opened sk) \<and> board = None"
  then show "snd (isDebugEnabled L sketch board gDet gDat app check isNV)
        = Inl (Error (noBoardSelected L))"
    by (simp add: isDebugEnabled_def)
next
  assume "sketch = Some (Opened sk) \<and> board = Some b \<and> board_fqbn b = None"
  then show "snd (isDebugEnabled L sketch board gDet gDat app check isNV)
        = Inl (Error (noPlatformInstalledFor L (board_name b)))"
    by (simp add: isDebugEnabled_def)
next
  assume a: "sketch = Some (Opened sk) \<and> board = Some b \<and> board_fqbn b = Some f
      \<and> gDet f = Fulfilled details \<and> gDat f = Fulfilled dat \<and> app f = Fulfilled w"
  then have fa: "fetchAll f gDet gDat app = (fetchCalls f, Inr (details, dat, w))"
    by (simp add: fetchAll_Fulfilled)
  { assume "details = None"
    with a fa show "snd (isDebugEnabled L sketch board gDet gDat app check isNV)
           = Inl (Error (noPlatformInstalledFor L (board_name b)))"
      by (auto simp add: isDebugEnabled_def) }
  { assume "f \<noteq> [] \<and> details \<noteq> None \<and> w = None"
    with a fa show "snd (isDebugEnabled L sketch board gDet gDat app check isNV)
           = Inl (Error (failedToAppend f))"
      by (auto simp add: isDebugEnabled_def) }
  { assume "f \<noteq> [] \<and> details \<noteq> None \<and> \<not> falsy w \<and> selectedProgrammer dat = None"
    with a fa show "snd (isDebugEnabled L sketch board gDet gDat app check isNV)
           = Inl (Error (noProgrammerSelectedFor L (board_name b)))"
      by (auto simp add: isDebugEnabled_def) }
  { assume c: "f \<noteq> [] \<and> details \<noteq> None \<and> w = Some fc \<and> fc \<noteq> [] \<and> selectedProgrammer dat = Some p
        \<and> (check \<lparr>params_fqbn = fc, params_programmer = programmer_id p,
                     params_sketchUri = sketch_uri sk\<rparr> = Rejected err
           \<or> check \<lparr>params_fqbn = fc, params_programmer = programmer_id p,
                     params_sketchUri = sketch_uri sk\<rparr> = Thrown err)"
    { assume "isNV err sk = Fulfilled True"
      with a fa c show "snd (isDebugEnabled L sketch board gDet gDat app check isNV)
              = Inl (Error (sketchIsNotCompiled L (sketch_name sk)))"
        by (auto simp add: isDebugEnabled_def checkStage_def Let_def) }
    { assume "isNV err sk = Fulfilled False"
      with a fa c show "snd (isDebugEnabled L sketch board gDet gDat app check isNV)
              = Inl (Error (debuggingNotSupported L (board_name b)))"
        by (auto simp add: isDebugEnabled_def checkStage_def Let_def) } }
qed

theorem isDebugEnabled_messages_witness:
  "snd (isDebugEnabled test_nls (Some Invalid) (Some test_board)
      unexpectedCall unexpectedCall unexpectedCall unexpectedCall unexpectedCall2)
     = Inl (Error ''No sketch opened'')
 \<and> snd (isDebugEnabled test_nls (Some (Opened test_sketch)) None
      unexpectedCall unexpectedCall unexpectedCall unexpectedCall unexpectedCall2)
     = Inl (Error ''No board selected'')
 \<and> snd (isDebugEnabled test_nls (Some (Opened test_sketch)) (Some (test_board\<lparr>board_fqbn := None\<rparr>))
      unexpectedCall unexpectedCall unexpectedCall unexpectedCall unexpectedCall2)
     = Inl (Error ''arduino/debug/noPlatformInstalledFor|ABC'')
 \<and> snd (isDebugEnabled test_nls (Some (Opened test_sketch)) (Some test_board)
      (yields None) (yields test_data) sameFqbn unexpectedCall unexpectedCall2)
     = Inl (Error ''arduino/debug/noPlatformInstalledFor|ABC'')
 \<and> snd (isDebugEnabled test_nls (Some (Opened test_sketch)) (Some test_board)
      (yields (Some test_boardDetails)) (yields test_data) (yields None)
      unexpectedCall unexpectedCall2)
     = Inl (Error ''Failed to append boards config to the FQBN. Original FQBN was: a:b:c'')
 \<and> snd (isDebugEnabled test_nls (Some (Opened test_sketch)) (Some test_board)
      (yields (Some test_boardDetails)) (yields (test_data\<lparr>selectedProgrammer := None\<rparr>))
      sameFqbn unexpectedCall unexpectedCall2)
     = Inl (Error ''arduino/debug/noProgrammerSelectedFor|ABC'')
 \<and> snd (isDebugEnabled test_nls (Some (Opened test_sketch)) (Some test_board)
      (yields (Some test_boardDetails)) (yields test_data) sameFqbn
      (throws ''sketch is not verifier'') (classifies True))
     = Inl (Error ''arduino/debug/sketchIsNotCompiled|My_Sketch'')
 \<and> snd (isDebugEnabled test_nls (Some (Opened test_sketch)) (Some test_board)
      (yields (Some test_boardDetails)) (yields test_data) sameFqbn
      (throws ''unhandled error'') (classifies False))
     = Inl (Error ''arduino/debug/debuggingNotSupported|ABC'')"
proof -
  have 1: "snd (isDebugEnabled test_nls (Some Invalid) (Some test_board)
      unexpectedCall unexpectedCall unexpectedCall unexpectedCall unexpectedCall2)
     = Inl (Error ''No sketch opened'')"
    using isDebugEnabled_messages [where L = test_nls and sketch = "Some Invalid"
        and board = "Some test_board"
        and gDet = unexpectedCall and gDat = unexpectedCall and app = unexpectedCall
        and check = unexpectedCall and isNV = unexpectedCall2]
    by (simp add: test_nls_def)
  have 2: "snd (isDebugEnabled test_nls (Some (Opened test_sketch)) None
      unexpectedCall unexpectedCall unexpectedCall unexpectedCall unexpectedCall2)
     = Inl (Error ''No board selected'')"
    using isDebugEnabled_messages [where L = test_nls and sketch = "Some (Opened test_sketch)"
        and board = None and sk = test_sketch
        and gDet = unexpectedCall and gDat = unexpectedCall and app = unexpectedCall
        and check = unexpectedCall and isNV = unexpectedCall2]
    by (simp add: test_nls_def)
  have 3: "snd (isDebugEnabled test_nls (Some (Opened test_sketch)) (Some (test_board\<lparr>board_fqbn := None\<rparr>))
      unexpectedCall unexpectedCall unexpectedCall unexpectedCall unexpectedCall2)
     = Inl (Error ''arduino/debug/noPlatformInstalledFor|ABC'')"
    using isDebugEnabled_messages [where L = test_nls and sketch = "Some (Opened test_sketch)"
        and board = "Some (test_board\<lparr>board_fqbn := None\<rparr>)" and sk = test_sketch
        and b = "test_board\<lparr>board_fqbn := None\<rparr>"
        and gDet = unexpectedCall and gDat = unexpectedCall and app = unexpectedCall
        and check = unexpectedCall and isNV = unexpectedCall2]
    by (simp add: test_board_def test_nls_def noPlatformInstalledFor_def)
  have 4: "snd (isDebugEnabled test_nls (Some (Opened test_sketch)) (Some test_board)
      (yields None) (yields test_data) sameFqbn unexpectedCall unexpectedCall2)
     = Inl (Error ''arduino/debug/noPlatformInstalledFor|ABC'')"
    using isDebugEnabled_messages [where L = test_nls and sketch = "Some (Opened test_sketch)"
        and board = "Some test_board" and sk = test_sketch and b = test_board and f = test_fqbn
        and gDet = "yields None" and gDat = "yields test_data" and app = sameFqbn
        and details = None and dat = test_data and w = "Some test_fqbn"
        and check = unexpectedCall and isNV = unexpectedCall2]
    by (simp add: test_board_def test_fqbn_def yields_def sameFqbn_def test_nls_def
        noPlatformInstalledFor_def)
  have 5: "snd (isDebugEnabled test_nls (Some (Opened test_sketch)) (Some test_board)
      (yields (Some test_boardDetails)) (yields test_data) (yields None)
      unexpectedCall unexpectedCall2)
     = Inl (Error ''Failed to append boards config to the FQBN. Original FQBN was: a:b:c'')"
    using isDebugEnabled_messages [where L = test_nls and sketch = "Some (Opened test_sketch)"
        and board = "Some test_board" and sk = test_sketch and b = test_board and f = test_fqbn
        and gDet = "yields (Some test_boardDetails)" and gDat = "yields test_data"
        and app = "yields None"
        and details = "Some test_boardDetails" and dat = test_data and w = None
        and check = unexpectedCall and isNV = unexpectedCall2]
    by (simp add: test_board_def test_fqbn_def yields_def failedToAppend_def)
  have 6: "snd (isDebugEnabled test_nls (Some (Opened test_sketch)) (Some test_board)
      (yields (Some test_boardDetails)) (yields (test_data\<lparr>selectedProgrammer := None\<rparr>))
      sameFqbn unexpectedCall unexpectedCall2)
     = Inl (Error ''arduino/debug/noProgrammerSelectedFor|ABC'')"
    using isDebugEnabled_messages [where L = test_nls and sketch = "Some (Opened test_sketch)"
        and board = "Some test_board" and sk = test_sketch and b = test_board and f = test_fqbn
        and gDet = "yields (Some test_boardDetails)"
        and gDat = "yields (test_data\<lparr>selectedProgrammer := None\<rparr>)" and app = sameFqbn
        and details = "Some test_boardDetails"
        and dat = "test_data\<lparr>selectedProgrammer := None\<rparr>" and w = "Some test_fqbn"
        and check = unexpectedCall and isNV = unexpectedCall2]
    by (simp add: test_board_def test_fqbn_def yields_def sameFqbn_def test_nls_def
        noProgrammerSelectedFor_def)
  have 7: "snd (isDebugEnabled test_nls (Some (Opened test_sketch)) (Some test_board)
      (yields (Some test_boardDetails)) (yields test_data) sameFqbn
      (throws ''sketch is not verifier'') (classifies True))
     = Inl (Error ''arduino/debug/sketchIsNotCompiled|My_Sketch'')"
    using isDebugEnabled_messages [where L = test_nls and sketch = "Some (Opened test_sketch)"
        and board = "Some test_board" and sk = test_sketch and b = test_board and f = test_fqbn
        and gDet = "yields (Some test_boardDetails)"
        and gDat = "yields test_data" and app = sameFqbn
        and details = "Some test_boardDetails"
        and dat = test_data and w = "Some test_fqbn" and fc = test_fqbn and p = p1
        and check = "throws ''sketch is not verifier''" and isNV = "classifies True"
        and err = "''sketch is not verifier''"]
    by (simp add: test_board_def test_fqbn_def yields_def sameFqbn_def test_data_def
        throws_def classifies_def test_sketch_def test_nls_def sketchIsNotCompiled_def)
  have 8: "snd (isDebugEnabled test_nls (Some (Opened test_sketch)) (Some test_board)
      (yields (Some test_boardDetails)) (yields test_data) sameFqbn
      (throws ''unhandled error'') (classifies False))
     = Inl (Error ''arduino/debug/debuggingNotSupported|ABC'')"
    using isDebugEnabled_messages [where L = test_nls and sketch = "Some (Opened test_sketch)"
        and board = "Some test_board" and sk = test_sketch and b = test_board and f = test_fqbn
        and gDet = "yields (Some test_boardDetails)"
        and gDat = "yields test_data" and app = sameFqbn
        and details = "Some test_boardDetails"
        and dat = test_data and w = "Some test_fqbn" and fc = test_fqbn and p = p1
        and check = "throws ''unhandled error''" and isNV = "classifies False"
        and err = "''unhandled error''"]
    by (simp add: test_board_def test_fqbn_def yields_def sameFqbn_def test_data_def
        throws_def classifies_def test_sketch_def test_nls_def debuggingNotSupported_def)
  from 1 2 3 4 5 6 7 8 show ?thesis by blast
qed

lemma isDebugEnabled_Inr_D:
  assumes "snd (isDebugEnabled L sketch board gDet gDat app check isNV) = Inr ()"
  shows "\<exists>sk b f bd dat fc p.
          sketch = Some (Opened sk) \<and> board = Some b \<and> board_fqbn b = Some f \<and> f \<noteq> []
        \<and> gDet f = Fulfilled (Some bd) \<and> app f = Fulfilled (Some fc) \<and> fc \<noteq> []
        \<and> gDat f = Fulfilled dat \<and> selectedProgrammer dat = Some p
        \<and> check \<lparr>params_fqbn = fc, params_programmer = programmer_id p,
                   params_sketchUri = sketch_uri sk\<rparr> = Fulfilled ()"
proof -
  from assms obtain sk where sk: "sketch = Some (Opened sk)"
    by (cases sketch rule: CurrentSketch_isValid.cases) (auto simp add: isDebugEnabled_def)
  from assms sk obtain b where b: "board = Some b"
    by (cases board) (auto simp add: isDebugEnabled_def)
  from assms sk b obtain f where f: "board_fqbn b = Some f" "f \<noteq> []"
    by (cases "board_fqbn b") (auto simp add: isDebugEnabled_def split: if_splits)
  obtain calls r where fa: "fetchAll f gDet gDat app = (calls, r)"
    by (cases "fetchAll f gDet gDat app")
  from assms sk b f fa obtain d dat w where r: "r = Inr (d, dat, w)"
    by (cases r) (auto simp add: isDebugEnabled_def)
  from fa r have g: "gDet f = Fulfilled d" "gDat f = Fulfilled dat" "app f = Fulfilled w"
    using fetchAll_Inr [of f gDet gDat app calls d dat w] by simp_all
  from assms sk b f fa r obtain bd where bd: "d = Some bd"
    by (cases d) (auto simp add: isDebugEnabled_def)
  from assms sk b f fa r bd obtain fc where fc: "w = Some fc" "fc \<noteq> []"
    by (cases w) (auto simp add: isDebugEnabled_def split: if_splits)
  from assms sk b f fa r bd fc obtain p where p: "selectedProgrammer dat = Some p"
    by (cases "selectedProgrammer dat") (auto simp add: isDebugEnabled_def)
  from assms sk b f fa r bd fc p
  have "snd (checkStage L sk b \<lparr>params_fqbn = fc, params_programmer = programmer_id p,
                   params_sketchUri = sketch_uri sk\<rparr> check isNV) = Inr ()"
    by (simp add: isDebugEnabled_def split: prod.splits)
  then have "check \<lparr>params_fqbn = fc, params_programmer = programmer_id p,
                   params_sketchUri = sketch_uri sk\<rparr> = Fulfilled ()"
    by (simp add: checkStage_Inr)
  with sk b f g bd fc p show ?thesis by blast
qed

lemma isDebugEnabled_resolved:
  assumes "sketch = Some (Opened sk)" "board = Some b" "board_fqbn b = Some f" "f \<noteq> []"
    "gDet f = Fulfilled (Some bd)" "app f = Fulfilled (Some fc)" "fc \<noteq> []"
    "gDat f = Fulfilled dat" "selectedProgrammer dat = Some p"
    "check \<lparr>params_fqbn = fc, params_programmer = programmer_id p,
                   params_sketchUri = sketch_uri sk\<rparr> = Fulfilled ()"
  shows "isDebugEnabled L sketch board gDet gDat app check isNV
         = (fetchCalls f @ [CheckDebugEnabled \<lparr>params_fqbn = fc, params_programmer = programmer_id p,
                   params_sketchUri = sketch_uri sk\<rparr>], Inr ())"
  using assms
  by (simp add: isDebugEnabled_def fetchAll_Fulfilled checkStage_Fulfilled)

text \<open>
  Claim C3, as amended. \<open>isDebugEnabled\<close> resolves if and only if the current sketch
  is valid, a board is selected whose FQBN is defined and not empty, \<open>getDetails\<close>
  yields board details, \<open>appendConfigToFqbn\<close> yields a string that is not empty,
  \<open>getData\<close> yields data with a selected programmer, and \<open>checkDebugEnabled\<close>
  resolves. On that path \<open>checkDebugEnabled\<close> is called exactly once, with the
  decorated FQBN, the id of the selected programmer and the URI of the sketch.
\<close>

theorem isDebugEnabled_resolves:
  "(snd (isDebugEnabled L sketch board gDet gDat app check isNV) = Inr ()
    \<longleftrightarrow> (\<exists>sk b f bd dat fc p.
          sketch = Some (Opened sk) \<and> board = Some b \<and> board_fqbn b = Some f \<and> f \<noteq> []
        \<and> gDet f = Fulfilled (Some bd) \<and> app f = Fulfilled (Some fc) \<and> fc \<noteq> []
        \<and> gDat f = Fulfilled dat \<and> selectedProgrammer dat = Some p
        \<and> check \<lparr>params_fqbn = fc, params_programmer = programmer_id p,
                   params_sketchUri = sketch_uri sk\<rparr> = Fulfilled ()))
 \<and> (sketch = Some (Opened sk) \<and> board = Some b \<and> board_fqbn b = Some f \<and> f \<noteq> []
        \<and> gDet f = Fulfilled (Some bd) \<and> app f = Fulfilled (Some fc) \<and> fc \<noteq> []
        \<and> gDat f = Fulfilled dat \<and> selectedProgrammer dat = Some p
        \<and> check \<lparr>params_fqbn = fc, params_programmer = programmer_id p,
                   params_sketchUri = sketch_uri sk\<rparr> = Fulfilled ()
     \<longrightarrow> checkCalls (fst (isDebugEnabled L sketch board gDet gDat app check isNV))
           = [\<lparr>params_fqbn = fc, params_programmer = programmer_id p,
                   params_sketchUri = sketch_uri sk\<rparr>])"
proof (intro conjI impI iffI)
  assume "snd (isDebugEnabled L sketch board gDet gDat app check isNV) = Inr ()"
  then show "\<exists>sk b f bd dat fc p.
          sketch = Some (Opened sk) \<and> board = Some b \<and> board_fqbn b = Some f \<and> f \<noteq> []
        \<and> gDet f = Fulfilled (Some bd) \<and> app f = Fulfilled (Some fc) \<and> fc \<noteq> []
        \<and> gDat f = Fulfilled dat \<and> selectedProgrammer dat = Some p
        \<and> check \<lparr>params_fqbn = fc, params_programmer = programmer_id p,
                   params_sketchUri = sketch_uri sk\<rparr> = Fulfilled ()"
    by (rule isDebugEnabled_Inr_D)
next
  assume "\<exists>sk b f bd dat fc p.
          sketch = Some (Opened sk) \<and> board = Some b \<and> board_fqbn b = Some f \<and> f \<noteq> []
        \<and> gDet f = Fulfilled (Some bd) \<and> app f = Fulfilled (Some fc) \<and> fc \<noteq> []
        \<and> gDat f = Fulfilled dat \<and> selectedProgrammer dat = Some p
        \<and> check \<lparr>params_fqbn = fc, params_programmer = programmer_id p,
                   params_sketchUri = sketch_uri sk\<rparr> = Fulfilled ()"
  then show "snd (isDebugEnabled L sketch board gDet gDat app check isNV) = Inr ()"
    by (auto simp add: isDebugEnabled_resolved)
next
  assume "sketch = Some (Opened sk) \<and> board = Some b \<and> board_fqbn b = Some f \<and> f \<noteq> []
        \<and> gDet f = Fulfilled (Some bd) \<and> app f = Fulfilled (Some fc) \<and> fc \<noteq> []
        \<and> gDat f = Fulfilled dat \<and> selectedProgrammer dat = Some p
        \<and> check \<lparr>params_fqbn = fc, params_programmer = programmer_id p,
                   params_sketchUri = sketch_uri sk\<rparr> = Fulfilled ()"
  then show "checkCalls (fst (isDebugEnabled L sketch board gDet gDat app check isNV))
           = [\<lparr>params_fqbn = fc, params_programmer = programmer_id p,
                   params_sketchUri = sketch_uri sk\<rparr>]"
    by (simp add: isDebugEnabled_resolved fetchCalls_def)
qed

theorem isDebugEnabled_resolves_witness:
  "snd (isDebugEnabled test_nls (Some (Opened test_sketch)) (Some test_board)
      (yields (Some test_boardDetails)) (yields test_data) sameFqbn (yields ()) unexpectedCall2)
     = Inr ()
 \<and> checkCalls (fst (isDebugEnabled test_nls (Some (Opened test_sketch)) (Some test_board)
      (yields (Some test_boardDetails)) (yields test_data) sameFqbn (yields ()) unexpectedCall2))
     = [test_params]"
proof -
  have h: "Some (Opened test_sketch) = Some (Opened test_sketch) \<and> Some test_board = Some test_board
     \<and> board_fqbn test_board = Some test_fqbn \<and> test_fqbn \<noteq> []
     \<and> yields (Some test_boardDetails) test_fqbn = Fulfilled (Some test_boardDetails)
     \<and> sameFqbn test_fqbn = Fulfilled (Some test_fqbn) \<and> test_fqbn \<noteq> []
     \<and> yields test_data test_fqbn = Fulfilled test_data \<and> selectedProgrammer test_data = Some p1
     \<and> yields () \<lparr>params_fqbn = test_fqbn, params_programmer = programmer_id p1,
                   params_sketchUri = sketch_uri test_sketch\<rparr> = Fulfilled ()"
    by (simp add: test_board_def test_fqbn_def yields_def sameFqbn_def test_data_def)
  have p: "\<lparr>params_fqbn = test_fqbn, params_programmer = programmer_id p1,
                   params_sketchUri = sketch_uri test_sketch\<rparr> = test_params"
    by (simp add: test_params_def test_fqbn_def p1_def test_sketch_def)
  from h p isDebugEnabled_resolves [where L = test_nls and sketch = "Some (Opened test_sketch)"
        and board = "Some test_board" and sk = test_sketch and b = test_board and f = test_fqbn
        and gDet = "yields (Some test_boardDetails)"
        and gDat = "yields test_data" and app = sameFqbn
        and bd = test_boardDetails
        and dat = test_data and fc = test_fqbn and p = p1
        and check = "yields ()" and isNV = unexpectedCall2]
  show ?thesis by metis
qed

text \<open>
  The claim as first stated asks for a defined FQBN only. With the empty string
  as the FQBN of the board, every condition it lists holds and the call rejects,
  before any callback is called.
\<close>

theorem isDebugEnabled_resolves_counterexample:
  "CurrentSketch_isValid (Some (Opened test_sketch)) = Some test_sketch
 \<and> board_fqbn (test_board\<lparr>board_fqbn := Some []\<rparr>) = Some []
 \<and> yields (Some test_boardDetails) [] = Fulfilled (Some test_boardDetails)
 \<and> sameFqbn test_fqbn = Fulfilled (Some test_fqbn)
 \<and> yields (Some test_fqbn) [] = Fulfilled (Some test_fqbn)
 \<and> yields test_data [] = Fulfilled test_data
 \<and> selectedProgrammer test_data = Some p1
 \<and> yields () test_params = Fulfilled ()
 \<and> isDebugEnabled test_nls (Some (Opened test_sketch)) (Some (test_board\<lparr>board_fqbn := Some []\<rparr>))
      (yields (Some test_boardDetails)) (yields test_data) (yields (Some test_fqbn)) (yields ())
      unexpectedCall2
     = ([], Inl (Error (noPlatformInstalledFor test_nls ''ABC'')))"
  by (simp add: isDebugEnabled_def test_board_def yields_def sameFqbn_def test_data_def)

section \<open>Properties of the board configuration store\<close>

lemma getData_falsy: "falsy fqbn \<Longrightarrow> getData svc fqbn s = (EMPTY, s)"
  by (simp add: getData_def)

lemma getData_hit:
  "f \<noteq> [] \<Longrightarrow> Data_is (storage s (getStorageKey f)) = Some d \<Longrightarrow>
   getData svc (Some f) s = (d, s)"
  by (simp add: getData_def)

lemma getData_loaded:
  "f \<noteq> [] \<Longrightarrow> Data_is (storage s (getStorageKey f)) = None \<Longrightarrow>
   svc f = Fulfilled (Some details) \<Longrightarrow>
   getData svc (Some f) s =
     (createDataStoreEntry details,
      s\<lparr>storage := (storage s)(getStorageKey f \<mapsto> StoredData (createDataStoreEntry details)),
        requested := requested s @ [f]\<rparr>)"
  by (simp add: getData_def loadBoardDetails_def Let_def)

lemma getData_not_loaded:
  "f \<noteq> [] \<Longrightarrow> Data_is (storage s (getStorageKey f)) = None \<Longrightarrow>
   \<not> (\<exists>details. svc f = Fulfilled (Some details)) \<Longrightarrow>
   getData svc (Some f) s = (EMPTY, s\<lparr>requested := requested s @ [f]\<rparr>)"
  by (cases "svc f") (auto simp add: getData_def loadBoardDetails_def Let_def split: option.splits)

lemma getData_fired: "fired (snd (getData svc fqbn s)) = fired s"
  by (cases "svc (the fqbn)")
     (auto simp add: getData_def loadBoardDetails_def Let_def split: option.splits)

text \<open>
  Claim C4, as amended. \<open>getData\<close> is a cache over the storage service. For every
  FQBN that is defined and not empty: if the storage holds, under the key
  \<open>.arduinoIDE-configOptions-\<close> followed by the FQBN, a value that satisfies
  \<open>BoardsDataStore.Data.is\<close>, it returns that value and leaves the state as it is
  (no board details are requested); otherwise it requests the board details, and
  either writes the entry created from them under the same key and returns it,
  or, when the details cannot be loaded, returns \<open>EMPTY\<close> and writes nothing. It
  returns \<open>EMPTY\<close>, with the state untouched, when the FQBN is undefined or empty.
\<close>

theorem getData_cache:
  "getStorageKey f = ''.arduinoIDE-configOptions-'' @ f
 \<and> (f \<noteq> [] \<and> Data_is (storage s (getStorageKey f)) = Some d \<longrightarrow>
      getData svc (Some f) s = (d, s))
 \<and> (f \<noteq> [] \<and> Data_is (storage s (getStorageKey f)) = None
      \<and> svc f = Fulfilled (Some details) \<longrightarrow>
      getData svc (Some f) s =
        (createDataStoreEntry details,
         s\<lparr>storage := (storage s)(getStorageKey f \<mapsto> StoredData (createDataStoreEntry details)),
           requested := requested s @ [f]\<rparr>))
 \<and> (f \<noteq> [] \<and> Data_is (storage s (getStorageKey f)) = None
      \<and> \<not> (\<exists>details. svc f = Fulfilled (Some details)) \<longrightarrow>
      getData svc (Some f) s = (EMPTY, s\<lparr>requested := requested s @ [f]\<rparr>))
 \<and> (fqbn = None \<or> fqbn = Some [] \<longrightarrow> getData svc fqbn s = (EMPTY, s))"
proof (intro conjI impI)
  show "getStorageKey f = ''.arduinoIDE-configOptions-'' @ f"
    by (simp add: getStorageKey_def)
next
  assume "f \<noteq> [] \<and> Data_is (storage s (getStorageKey f)) = Some d"
  then show "getData svc (Some f) s = (d, s)"
    by (simp add: getData_hit)
next
  assume "f \<noteq> [] \<and> Data_is (storage s (getStorageKey f)) = None
      \<and> svc f = Fulfilled (Some details)"
  then show "getData svc (Some f) s =
        (createDataStoreEntry details,
         s\<lparr>storage := (storage s)(getStorageKey f \<mapsto> StoredData (createDataStoreEntry details)),
           requested := requested s @ [f]\<rparr>)"
    by (simp add: getData_loaded)
next
  assume "f \<noteq> [] \<and> Data_is (storage s (getStorageKey f)) = None
      \<and> \<not> (\<exists>details. svc f = Fulfilled (Some details))"
  then show "getData svc (Some f) s = (EMPTY, s\<lparr>requested := requested s @ [f]\<rparr>)"
    by (simp add: getData_not_loaded)
next
  assume "fqbn = None \<or> fqbn = Some []"
  then have "falsy fqbn" by auto
  then show "getData svc fqbn s = (EMPTY, s)"
    by (rule getData_falsy)
qed

lemma createDataStoreEntry_test: "createDataStoreEntry test_boardDetails = test_data"
  by (simp add: createDataStoreEntry_def test_boardDetails_def test_data_def p1_def p2_def)

theorem getData_cache_witness:
  "getData knownBoards (Some test_fqbn) (storeWith test_fqbn test_dataWithOptions)
     = (test_dataWithOptions, storeWith test_fqbn test_dataWithOptions)
 \<and> getData knownBoards (Some test_fqbn) emptyStore
     = (test_data, (storeWith test_fqbn test_data)\<lparr>requested := [test_fqbn]\<rparr>)
 \<and> getData knownBoards (Some ''x:y:z'') emptyStore
     = (EMPTY, emptyStore\<lparr>requested := [''x:y:z'']\<rparr>)
 \<and> getData knownBoards None (storeWith test_fqbn test_dataWithOptions)
     = (EMPTY, storeWith test_fqbn test_dataWithOptions)"
proof -
  have h1: "test_fqbn \<noteq> [] \<and>
      Data_is (storage (storeWith test_fqbn test_dataWithOptions) (getStorageKey test_fqbn))
        = Some test_dataWithOptions"
    by (simp add: storeWith_def setData_def test_fqbn_def)
  have 1: "getData knownBoards (Some test_fqbn) (storeWith test_fqbn test_dataWithOptions)
     = (test_dataWithOptions, storeWith test_fqbn test_dataWithOptions)"
    using h1 getData_cache [where f = test_fqbn and s = "storeWith test_fqbn test_dataWithOptions"
        and d = test_dataWithOptions and svc = knownBoards and fqbn = None]
    by blast
  have h2: "test_fqbn \<noteq> [] \<and> Data_is (storage emptyStore (getStorageKey test_fqbn)) = None
      \<and> knownBoards test_fqbn = Fulfilled (Some test_boardDetails)"
    by (simp add: emptyStore_def knownBoards_def) (simp add: test_fqbn_def)
  have "getData knownBoards (Some test_fqbn) emptyStore =
        (createDataStoreEntry test_boardDetails,
         emptyStore\<lparr>storage := (storage emptyStore)(getStorageKey test_fqbn \<mapsto>
                       StoredData (createDataStoreEntry test_boardDetails)),
           requested := requested emptyStore @ [test_fqbn]\<rparr>)"
    using h2 getData_cache [where f = test_fqbn and s = emptyStore
        and details = test_boardDetails and svc = knownBoards and fqbn = None]
    by blast
  then have 2: "getData knownBoards (Some test_fqbn) emptyStore
     = (test_data, (storeWith test_fqbn test_data)\<lparr>requested := [test_fqbn]\<rparr>)"
    by (simp add: storeWith_def setData_def emptyStore_def createDataStoreEntry_test)
  have h3: "''x:y:z'' \<noteq> [] \<and> Data_is (storage emptyStore (getStorageKey ''x:y:z'')) = None
      \<and> \<not> (\<exists>details. knownBoards ''x:y:z'' = Fulfilled (Some details))"
    by (simp add: emptyStore_def knownBoards_def test_fqbn_def)
  have "getData knownBoards (Some ''x:y:z'') emptyStore
     = (EMPTY, emptyStore\<lparr>requested := requested emptyStore @ [''x:y:z'']\<rparr>)"
    using h3 getData_cache [where f = "''x:y:z''" and s = emptyStore and svc = knownBoards
        and fqbn = None]
    by blast
  then have 3: "getData knownBoards (Some ''x:y:z'') emptyStore
     = (EMPTY, emptyStore\<lparr>requested := [''x:y:z'']\<rparr>)"
    by (simp add: emptyStore_def)
  have 4: "getData knownBoards None (storeWith test_fqbn test_dataWithOptions)
     = (EMPTY, storeWith test_fqbn test_dataWithOptions)"
    using getData_cache [where fqbn = None and s = "storeWith test_fqbn test_dataWithOptions"
        and svc = knownBoards and f = test_fqbn]
    by blast
  from 1 2 3 4 show ?thesis by blast
qed

text \<open>
  The claim as first stated covers every defined FQBN. For the empty FQBN the
  stored value is not returned, although it satisfies \<open>Data.is\<close>.
\<close>

theorem getData_cache_counterexample:
  "Data_is (storage (storeWith [] test_data) (getStorageKey [])) = Some test_data
 \<and> fst (getData knownBoards (Some []) (storeWith [] test_data)) = EMPTY
 \<and> test_data \<noteq> EMPTY"
  by (simp add: getData_def storeWith_def setData_def emptyStore_def test_data_def EMPTY_def)

lemma getData_storage:
  "storage (snd (getData svc (Some f) s)) = storage s
   \<or> (\<exists>x. storage (snd (getData svc (Some f) s)) = (storage s)(getStorageKey f \<mapsto> x))"
  by (cases "svc f")
     (auto simp add: getData_def loadBoardDetails_def Let_def split: option.splits)

lemma getData_warm:
  "Data_is (storage s (getStorageKey f)) \<noteq> None \<or> f = [] \<Longrightarrow>
   snd (getData svc (Some f) s) = s"
  by (auto simp add: getData_def)

lemma getData_warm_value:
  "Data_is (storage s (getStorageKey f)) = Some d \<Longrightarrow> programmers (fst (getData svc (Some f) s)) \<noteq> []
   \<or> configOptions (fst (getData svc (Some f) s)) \<noteq> [] \<Longrightarrow>
   fst (getData svc (Some f) s) = d"
  by (auto simp add: getData_def EMPTY_def)

lemma selectProgrammer_found:
  "\<exists>p\<in>set (programmers (fst (getData svc (Some f) s))). eq sel p \<Longrightarrow>
   selectProgrammer eq svc f sel s =
     (True,
      (snd (getData svc (Some f) s))
        \<lparr>storage := (storage (snd (getData svc (Some f) s)))
           (getStorageKey f \<mapsto> StoredData ((fst (getData svc (Some f) s))\<lparr>selectedProgrammer := Some sel\<rparr>)),
         fired := fired s @ [[\<lparr>change_fqbn = f,
            change_data = (fst (getData svc (Some f) s))\<lparr>selectedProgrammer := Some sel\<rparr>\<rparr>]]\<rparr>)"
proof -
  assume "\<exists>p\<in>set (programmers (fst (getData svc (Some f) s))). eq sel p"
  then have "find (\<lambda>p. eq sel p) (programmers (fst (getData svc (Some f) s))) \<noteq> None"
    by (auto simp add: find_None_iff)
  then obtain q where "find (\<lambda>p. eq sel p) (programmers (fst (getData svc (Some f) s))) = Some q"
    by blast
  then show ?thesis
    using getData_fired [of svc "Some f" s]
    by (cases "getData svc (Some f) s")
       (simp add: selectProgrammer_def setData_def fireChanged_def Let_def)
qed

lemma selectProgrammer_not_found:
  "\<not> (\<exists>p\<in>set (programmers (fst (getData svc (Some f) s))). eq sel p) \<Longrightarrow>
   selectProgrammer eq svc f sel s = (False, snd (getData svc (Some f) s))"
proof -
  assume "\<not> (\<exists>p\<in>set (programmers (fst (getData svc (Some f) s))). eq sel p)"
  then have "find (\<lambda>p. eq sel p) (programmers (fst (getData svc (Some f) s))) = None"
    by (auto simp add: find_None_iff)
  then show ?thesis
    by (cases "getData svc (Some f) s") (simp add: selectProgrammer_def)
qed

text \<open>
  Claim C5, as amended. \<open>selectProgrammer\<close> returns true exactly when the given
  programmer is, by \<open>Programmer.equals\<close>, a member of the programmers of the data
  that \<open>getData\<close> gives for the FQBN. Then it stores that data with the given
  programmer as the selected one, and fires one change event for the FQBN with
  it. When the programmer is not a member it returns false, fires no event and
  writes nothing of its own: the state is as \<open>getData\<close> leaves it. That is the
  state before the call when the storage already held data for the FQBN or the
  FQBN is empty. Otherwise the board details have been requested once, and the
  storage is unchanged when they could not be loaded, and holds, under the key
  of the FQBN, the entry created from them when they could.
\<close>

theorem selectProgrammer_membership:
  "(fst (selectProgrammer eq svc f sel s)
      \<longleftrightarrow> (\<exists>p\<in>set (programmers (fst (getData svc (Some f) s))). eq sel p))
 \<and> ((\<exists>p\<in>set (programmers (fst (getData svc (Some f) s))). eq sel p) \<longrightarrow>
      snd (selectProgrammer eq svc f sel s) =
        (snd (getData svc (Some f) s))
          \<lparr>storage := (storage (snd (getData svc (Some f) s)))
             (getStorageKey f \<mapsto>
                StoredData ((fst (getData svc (Some f) s))\<lparr>selectedProgrammer := Some sel\<rparr>)),
           fired := fired s @ [[\<lparr>change_fqbn = f,
              change_data = (fst (getData svc (Some f) s))\<lparr>selectedProgrammer := Some sel\<rparr>\<rparr>]]\<rparr>)
 \<and> (\<not> (\<exists>p\<in>set (programmers (fst (getData svc (Some f) s))). eq sel p) \<longrightarrow>
      snd (selectProgrammer eq svc f sel s) = snd (getData svc (Some f) s)
      \<and> fired (snd (selectProgrammer eq svc f sel s)) = fired s
      \<and> (Data_is (storage s (getStorageKey f)) \<noteq> None \<or> f = [] \<longrightarrow>
           snd (selectProgrammer eq svc f sel s) = s)
      \<and> (f \<noteq> [] \<and> Data_is (storage s (getStorageKey f)) = None
           \<and> svc f = Fulfilled (Some details) \<longrightarrow>
           snd (selectProgrammer eq svc f sel s) =
             s\<lparr>storage := (storage s)(getStorageKey f \<mapsto>
                    StoredData (createDataStoreEntry details)),
               requested := requested s @ [f]\<rparr>)
      \<and> (f \<noteq> [] \<and> Data_is (storage s (getStorageKey f)) = None
           \<and> \<not> (\<exists>details. svc f = Fulfilled (Some details)) \<longrightarrow>
           snd (selectProgrammer eq svc f sel s) = s\<lparr>requested := requested s @ [f]\<rparr>))"
proof (cases "\<exists>p\<in>set (programmers (fst (getData svc (Some f) s))). eq sel p")
  case True
  then show ?thesis by (simp add: selectProgrammer_found)
next
  case False
  then have r: "selectProgrammer eq svc f sel s = (False, snd (getData svc (Some f) s))"
    by (rule selectProgrammer_not_found)
  have 1: "fired (snd (getData svc (Some f) s)) = fired s"
    by (rule getData_fired)
  have 2: "Data_is (storage s (getStorageKey f)) \<noteq> None \<or> f = [] \<longrightarrow>
           snd (getData svc (Some f) s) = s"
    using getData_warm [of s f svc] by blast
  have 3: "f \<noteq> [] \<and> Data_is (storage s (getStorageKey f)) = None
           \<and> svc f = Fulfilled (Some details) \<longrightarrow>
           snd (getData svc (Some f) s) =
             s\<lparr>storage := (storage s)(getStorageKey f \<mapsto>
                    StoredData (createDataStoreEntry details)),
               requested := requested s @ [f]\<rparr>"
    by (simp add: getData_loaded)
  have 4: "f \<noteq> [] \<and> Data_is (storage s (getStorageKey f)) = None
           \<and> \<not> (\<exists>details. svc f = Fulfilled (Some details)) \<longrightarrow>
           snd (getData svc (Some f) s) = s\<lparr>requested := requested s @ [f]\<rparr>"
    by (simp add: getData_not_loaded)
  from False r 1 2 3 4 show ?thesis by simp
qed

text \<open>
  Claim C9. When \<open>selectProgrammer\<close> succeeds, the data it stores for the FQBN
  differs from the data it read for that FQBN in the selected programmer only:
  the config options, the programmers and the default programmer id are the
  same; the data it read is the data stored before, where the storage held any.
  The values under the other keys stay as they were.
\<close>

theorem selectProgrammer_frame:
  "fst (selectProgrammer eq svc f sel s) \<longrightarrow>
     (\<exists>d. storage (snd (selectProgrammer eq svc f sel s))
            = (storage s)(getStorageKey f \<mapsto> StoredData d)
        \<and> selectedProgrammer d = Some sel
        \<and> configOptions d = configOptions (fst (getData svc (Some f) s))
        \<and> programmers d = programmers (fst (getData svc (Some f) s))
        \<and> defaultProgrammerId d = defaultProgrammerId (fst (getData svc (Some f) s)))
   \<and> (\<forall>d0. Data_is (storage s (getStorageKey f)) = Some d0 \<longrightarrow>
          fst (getData svc (Some f) s) = d0)
   \<and> fired (snd (selectProgrammer eq svc f sel s)) = fired s @
        [[\<lparr>change_fqbn = f, change_data = (fst (getData svc (Some f) s))\<lparr>selectedProgrammer := Some sel\<rparr>\<rparr>]]
   \<and> requested (snd (selectProgrammer eq svc f sel s)) = requested (snd (getData svc (Some f) s))"
proof
  assume ok: "fst (selectProgrammer eq svc f sel s)"
  have mem: "\<exists>p\<in>set (programmers (fst (getData svc (Some f) s))). eq sel p"
  proof (rule ccontr)
    assume "\<not> ?thesis"
    then have "selectProgrammer eq svc f sel s = (False, snd (getData svc (Some f) s))"
      by (rule selectProgrammer_not_found)
    with ok show False by simp
  qed
  then have ne: "programmers (fst (getData svc (Some f) s)) \<noteq> []" by auto
  let ?d = "(fst (getData svc (Some f) s))\<lparr>selectedProgrammer := Some sel\<rparr>"
  have st: "storage (snd (selectProgrammer eq svc f sel s))
            = (storage s)(getStorageKey f \<mapsto> StoredData ?d)"
    using getData_storage [of svc f s] mem
    by (auto simp add: selectProgrammer_found)
  have 1: "\<exists>d. storage (snd (selectProgrammer eq svc f sel s))
            = (storage s)(getStorageKey f \<mapsto> StoredData d)
        \<and> selectedProgrammer d = Some sel
        \<and> configOptions d = configOptions (fst (getData svc (Some f) s))
        \<and> programmers d = programmers (fst (getData svc (Some f) s))
        \<and> defaultProgrammerId d = defaultProgrammerId (fst (getData svc (Some f) s))"
    using st by (intro exI [of _ ?d]) simp
  have 2: "\<forall>d0. Data_is (storage s (getStorageKey f)) = Some d0 \<longrightarrow>
          fst (getData svc (Some f) s) = d0"
    using ne getData_warm_value [of s f _ svc] by blast
  have 3: "fired (snd (selectProgrammer eq svc f sel s)) = fired s @
        [[\<lparr>change_fqbn = f, change_data = ?d\<rparr>]]"
    using mem by (simp add: selectProgrammer_found)
  have 4: "requested (snd (selectProgrammer eq svc f sel s)) = requested (snd (getData svc (Some f) s))"
    using mem by (simp add: selectProgrammer_found)
  from 1 2 3 4 show "(\<exists>d. storage (snd (selectProgrammer eq svc f sel s))
            = (storage s)(getStorageKey f \<mapsto> StoredData d)
        \<and> selectedProgrammer d = Some sel
        \<and> configOptions d = configOptions (fst (getData svc (Some f) s))
        \<and> programmers d = programmers (fst (getData svc (Some f) s))
        \<and> defaultProgrammerId d = defaultProgrammerId (fst (getData svc (Some f) s)))
   \<and> (\<forall>d0. Data_is (storage s (getStorageKey f)) = Some d0 \<longrightarrow>
          fst (getData svc (Some f) s) = d0)
   \<and> fired (snd (selectProgrammer eq svc f sel s)) = fired s @
        [[\<lparr>change_fqbn = f, change_data = ?d\<rparr>]]
   \<and> requested (snd (selectProgrammer eq svc f sel s)) = requested (snd (getData svc (Some f) s))"
    by blast
qed


lemma getData_warm_fixture:
  "getData knownBoards (Some test_fqbn) (storeWith test_fqbn test_data)
     = (test_data, storeWith test_fqbn test_data)"
  by (simp add: getData_def storeWith_def setData_def test_fqbn_def)

lemma getData_cold_fixture:
  "getData knownBoards (Some test_fqbn) emptyStore
     = (test_data, (storeWith test_fqbn test_data)\<lparr>requested := [test_fqbn]\<rparr>)"
  by (simp add: getData_def storeWith_def setData_def emptyStore_def knownBoards_def
      loadBoardDetails_def createDataStoreEntry_test)
     (simp add: test_fqbn_def)

lemma getData_unknown_fixture:
  "getData knownBoards (Some ''x:y:z'') emptyStore
     = (EMPTY, emptyStore\<lparr>requested := [''x:y:z'']\<rparr>)"
  by (simp add: getData_def emptyStore_def knownBoards_def loadBoardDetails_def test_fqbn_def)

theorem selectProgrammer_membership_witness:
  "selectProgrammer sameProgrammer knownBoards test_fqbn p2 (storeWith test_fqbn test_data)
     = (True, (storeWith test_fqbn (test_data\<lparr>selectedProgrammer := Some p2\<rparr>))
               \<lparr>fired := [[\<lparr>change_fqbn = test_fqbn,
                   change_data = test_data\<lparr>selectedProgrammer := Some p2\<rparr>\<rparr>]]\<rparr>)
 \<and> selectProgrammer sameProgrammer knownBoards test_fqbn p3 (storeWith test_fqbn test_data)
     = (False, storeWith test_fqbn test_data)
 \<and> selectProgrammer sameProgrammer knownBoards test_fqbn p3 emptyStore
     = (False, (storeWith test_fqbn test_data)\<lparr>requested := [test_fqbn]\<rparr>)
 \<and> selectProgrammer sameProgrammer knownBoards ''x:y:z'' p1 emptyStore
     = (False, emptyStore\<lparr>requested := [''x:y:z'']\<rparr>)"
proof -
  have m2: "\<exists>p\<in>set (programmers (fst (getData knownBoards (Some test_fqbn)
                (storeWith test_fqbn test_data)))). sameProgrammer p2 p"
    by (simp add: getData_warm_fixture) (simp add: test_data_def sameProgrammer_def)
  have m3: "\<not> (\<exists>p\<in>set (programmers (fst (getData knownBoards (Some test_fqbn)
                (storeWith test_fqbn test_data)))). sameProgrammer p3 p)"
    by (simp add: getData_warm_fixture)
       (simp add: test_data_def sameProgrammer_def p1_def p2_def p3_def)
  have "fst (selectProgrammer sameProgrammer knownBoards test_fqbn p2 (storeWith test_fqbn test_data))
      \<and> snd (selectProgrammer sameProgrammer knownBoards test_fqbn p2 (storeWith test_fqbn test_data))
        = (snd (getData knownBoards (Some test_fqbn) (storeWith test_fqbn test_data)))
          \<lparr>storage := (storage (snd (getData knownBoards (Some test_fqbn) (storeWith test_fqbn test_data))))
             (getStorageKey test_fqbn \<mapsto>
                StoredData ((fst (getData knownBoards (Some test_fqbn) (storeWith test_fqbn test_data)))
                   \<lparr>selectedProgrammer := Some p2\<rparr>)),
           fired := fired (storeWith test_fqbn test_data) @ [[\<lparr>change_fqbn = test_fqbn,
              change_data = (fst (getData knownBoards (Some test_fqbn) (storeWith test_fqbn test_data)))
                 \<lparr>selectedProgrammer := Some p2\<rparr>\<rparr>]]\<rparr>"
    using m2 selectProgrammer_membership [where eq = sameProgrammer and svc = knownBoards
        and f = test_fqbn and sel = p2 and s = "storeWith test_fqbn test_data"]
    by blast
  then have "fst (selectProgrammer sameProgrammer knownBoards test_fqbn p2 (storeWith test_fqbn test_data))
      \<and> snd (selectProgrammer sameProgrammer knownBoards test_fqbn p2 (storeWith test_fqbn test_data))
        = (storeWith test_fqbn test_data)
          \<lparr>storage := (storage (storeWith test_fqbn test_data))
             (getStorageKey test_fqbn \<mapsto> StoredData (test_data\<lparr>selectedProgrammer := Some p2\<rparr>)),
           fired := fired (storeWith test_fqbn test_data) @ [[\<lparr>change_fqbn = test_fqbn,
              change_data = test_data\<lparr>selectedProgrammer := Some p2\<rparr>\<rparr>]]\<rparr>"
    by (simp only: getData_warm_fixture fst_conv snd_conv)
  then have 1: "selectProgrammer sameProgrammer knownBoards test_fqbn p2 (storeWith test_fqbn test_data)
     = (True, (storeWith test_fqbn (test_data\<lparr>selectedProgrammer := Some p2\<rparr>))
               \<lparr>fired := [[\<lparr>change_fqbn = test_fqbn,
                   change_data = test_data\<lparr>selectedProgrammer := Some p2\<rparr>\<rparr>]]\<rparr>)"
    by (simp add: prod_eq_iff storeWith_def setData_def emptyStore_def)
  have "\<not> fst (selectProgrammer sameProgrammer knownBoards test_fqbn p3 (storeWith test_fqbn test_data))
      \<and> snd (selectProgrammer sameProgrammer knownBoards test_fqbn p3 (storeWith test_fqbn test_data))
        = snd (getData knownBoards (Some test_fqbn) (storeWith test_fqbn test_data))"
    using m3 selectProgrammer_membership [where eq = sameProgrammer and svc = knownBoards
        and f = test_fqbn and sel = p3 and s = "storeWith test_fqbn test_data"]
    by blast
  then have 2: "selectProgrammer sameProgrammer knownBoards test_fqbn p3 (storeWith test_fqbn test_data)
     = (False, storeWith test_fqbn test_data)"
    by (simp add: getData_warm_fixture prod_eq_iff)
  have m4: "\<not> (\<exists>p\<in>set (programmers (fst (getData knownBoards (Some test_fqbn) emptyStore))).
                sameProgrammer p3 p)"
    by (simp add: getData_cold_fixture)
       (simp add: test_data_def sameProgrammer_def p1_def p2_def p3_def)
  have h4: "test_fqbn \<noteq> [] \<and> Data_is (storage emptyStore (getStorageKey test_fqbn)) = None
      \<and> knownBoards test_fqbn = Fulfilled (Some test_boardDetails)"
    by (simp add: emptyStore_def knownBoards_def) (simp add: test_fqbn_def)
  have "\<not> fst (selectProgrammer sameProgrammer knownBoards test_fqbn p3 emptyStore)
      \<and> snd (selectProgrammer sameProgrammer knownBoards test_fqbn p3 emptyStore)
        = emptyStore\<lparr>storage := (storage emptyStore)(getStorageKey test_fqbn \<mapsto>
                    StoredData (createDataStoreEntry test_boardDetails)),
               requested := requested emptyStore @ [test_fqbn]\<rparr>"
    using m4 h4 selectProgrammer_membership [where eq = sameProgrammer and svc = knownBoards
        and f = test_fqbn and sel = p3 and s = emptyStore and details = test_boardDetails]
    by blast
  then have 3: "selectProgrammer sameProgrammer knownBoards test_fqbn p3 emptyStore
     = (False, (storeWith test_fqbn test_data)\<lparr>requested := [test_fqbn]\<rparr>)"
    by (simp add: prod_eq_iff storeWith_def setData_def emptyStore_def createDataStoreEntry_test)
  have m5: "\<not> (\<exists>p\<in>set (programmers (fst (getData knownBoards (Some ''x:y:z'') emptyStore))).
                sameProgrammer p1 p)"
    by (simp add: getData_unknown_fixture) (simp add: EMPTY_def)
  have h5: "''x:y:z'' \<noteq> [] \<and> Data_is (storage emptyStore (getStorageKey ''x:y:z'')) = None
      \<and> \<not> (\<exists>details. knownBoards ''x:y:z'' = Fulfilled (Some details))"
    by (simp add: emptyStore_def knownBoards_def test_fqbn_def)
  have "\<not> fst (selectProgrammer sameProgrammer knownBoards ''x:y:z'' p1 emptyStore)
      \<and> snd (selectProgrammer sameProgrammer knownBoards ''x:y:z'' p1 emptyStore)
        = emptyStore\<lparr>requested := requested emptyStore @ [''x:y:z'']\<rparr>"
    using m5 h5 selectProgrammer_membership [where eq = sameProgrammer and svc = knownBoards
        and f = "''x:y:z''" and sel = p1 and s = emptyStore and details = test_boardDetails]
    by blast
  then have 4: "selectProgrammer sameProgrammer knownBoards ''x:y:z'' p1 emptyStore
     = (False, emptyStore\<lparr>requested := [''x:y:z'']\<rparr>)"
    by (simp add: prod_eq_iff emptyStore_def)
  from 1 2 3 4 show ?thesis by blast
qed

text \<open>
  The claim as first stated has the stored data unchanged whenever the programmer
  is not a member. With nothing stored for the FQBN, \<open>getData\<close> stores the entry it
  creates from the board details, although \<open>selectProgrammer\<close> returns false.
\<close>

theorem selectProgrammer_membership_counterexample:
  "\<not> fst (selectProgrammer sameProgrammer knownBoards test_fqbn p3 emptyStore)
 \<and> storage emptyStore (getStorageKey test_fqbn) = None
 \<and> storage (snd (selectProgrammer sameProgrammer knownBoards test_fqbn p3 emptyStore))
      (getStorageKey test_fqbn) = Some (StoredData test_data)"
  by (simp add: selectProgrammer_def getData_cold_fixture)
     (simp add: test_data_def sameProgrammer_def p1_def p2_def p3_def storeWith_def setData_def
        emptyStore_def)

theorem selectProgrammer_frame_witness:
  "fst (selectProgrammer sameProgrammer knownBoards test_fqbn p2 (storeWith test_fqbn test_data))
 \<and> fst (getData knownBoards (Some test_fqbn) (storeWith test_fqbn test_data)) = test_data
 \<and> fired (snd (selectProgrammer sameProgrammer knownBoards test_fqbn p2 (storeWith test_fqbn test_data)))
     = [[\<lparr>change_fqbn = test_fqbn, change_data = test_data\<lparr>selectedProgrammer := Some p2\<rparr>\<rparr>]]
 \<and> requested (snd (selectProgrammer sameProgrammer knownBoards test_fqbn p2
       (storeWith test_fqbn test_data))) = []"
proof -
  have ok: "fst (selectProgrammer sameProgrammer knownBoards test_fqbn p2 (storeWith test_fqbn test_data))"
    by (simp add: selectProgrammer_def getData_warm_fixture)
       (simp add: test_data_def sameProgrammer_def p1_def p2_def Let_def)
  have st: "Data_is (storage (storeWith test_fqbn test_data) (getStorageKey test_fqbn)) = Some test_data"
    by (simp add: storeWith_def setData_def)
  have "requested (snd (getData knownBoards (Some test_fqbn) (storeWith test_fqbn test_data)))
          = requested (storeWith test_fqbn test_data)"
    by (simp only: getData_warm_fixture snd_conv)
  then have e: "fired (storeWith test_fqbn test_data) = []"
    "requested (snd (getData knownBoards (Some test_fqbn) (storeWith test_fqbn test_data))) = []"
    by (simp_all add: storeWith_def setData_def emptyStore_def)
  from ok st selectProgrammer_frame [where eq = sameProgrammer and svc = knownBoards
        and f = test_fqbn and sel = p2 and s = "storeWith test_fqbn test_data"]
  have "fst (getData knownBoards (Some test_fqbn) (storeWith test_fqbn test_data)) = test_data
    \<and> fired (snd (selectProgrammer sameProgrammer knownBoards test_fqbn p2 (storeWith test_fqbn test_data)))
       = fired (storeWith test_fqbn test_data) @
        [[\<lparr>change_fqbn = test_fqbn, change_data =
           (fst (getData knownBoards (Some test_fqbn) (storeWith test_fqbn test_data)))
             \<lparr>selectedProgrammer := Some p2\<rparr>\<rparr>]]
    \<and> requested (snd (selectProgrammer sameProgrammer knownBoards test_fqbn p2
       (storeWith test_fqbn test_data)))
       = requested (snd (getData knownBoards (Some test_fqbn) (storeWith test_fqbn test_data)))"
    by blast
  with ok e show ?thesis by simp
qed

lemma selectValues_eq:
  "selectValues sv vs u =
     (map (\<lambda>v. v\<lparr>configValue_selected := (configValue_value v = sv)\<rparr>) vs,
      u \<or> sv \<in> set (map configValue_value vs))"
  by (induction vs arbitrary: u) auto

lemma mutateFound_split:
  "find (\<lambda>c. configOption_option c = opt) cs = Some c \<Longrightarrow>
   \<exists>pre post. cs = pre @ c # post \<and> (\<forall>x\<in>set pre. configOption_option x \<noteq> opt)
     \<and> configOption_option c = opt
     \<and> mutateFound opt vs cs = pre @ c\<lparr>configOption_values := vs\<rparr> # post"
proof (induction cs)
  case Nil
  then show ?case by simp
next
  case (Cons a cs)
  show ?case
  proof (cases "configOption_option a = opt")
    case True
    with Cons.prems have "a = c" by simp
    with True have "a # cs = [] @ c # cs \<and> (\<forall>x\<in>set []. configOption_option x \<noteq> opt)
      \<and> configOption_option c = opt
      \<and> mutateFound opt vs (a # cs) = [] @ c\<lparr>configOption_values := vs\<rparr> # cs"
      by simp
    then show ?thesis by blast
  next
    case False
    with Cons.prems have "find (\<lambda>c. configOption_option c = opt) cs = Some c" by simp
    from Cons.IH [OF this] obtain pre post where
      h: "cs = pre @ c # post" "\<forall>x\<in>set pre. configOption_option x \<noteq> opt"
         "configOption_option c = opt"
         "mutateFound opt vs cs = pre @ c\<lparr>configOption_values := vs\<rparr> # post"
      by blast
    with False have "a # cs = (a # pre) @ c # post
      \<and> (\<forall>x\<in>set (a # pre). configOption_option x \<noteq> opt)
      \<and> configOption_option c = opt
      \<and> mutateFound opt vs (a # cs) = (a # pre) @ c\<lparr>configOption_values := vs\<rparr> # post"
      by simp
    then show ?thesis by blast
  qed
qed

lemma selectConfigOption_not_selectable:
  "\<not> selectable opt sv (fst (getData svc (Some f) s)) \<Longrightarrow>
   selectConfigOption svc f opt sv s = (False, snd (getData svc (Some f) s))"
  by (cases "getData svc (Some f) s")
     (auto simp add: selectConfigOption_def selectable_def selectValues_eq split: option.splits)

lemma selectConfigOption_selectable:
  "find (\<lambda>c. configOption_option c = opt) (configOptions (fst (getData svc (Some f) s))) = Some c \<Longrightarrow>
   sv \<in> set (map configValue_value (configOption_values c)) \<Longrightarrow>
   selectConfigOption svc f opt sv s =
     (True,
      (snd (getData svc (Some f) s))
        \<lparr>storage := (storage (snd (getData svc (Some f) s)))
           (getStorageKey f \<mapsto> StoredData ((fst (getData svc (Some f) s))
              \<lparr>configOptions := mutateFound opt
                 (map (\<lambda>v. v\<lparr>configValue_selected := (configValue_value v = sv)\<rparr>)
                    (configOption_values c))
                 (configOptions (fst (getData svc (Some f) s)))\<rparr>)),
         fired := fired s @ [[\<lparr>change_fqbn = f,
            change_data = (fst (getData svc (Some f) s))
              \<lparr>configOptions := mutateFound opt
                 (map (\<lambda>v. v\<lparr>configValue_selected := (configValue_value v = sv)\<rparr>)
                    (configOption_values c))
                 (configOptions (fst (getData svc (Some f) s)))\<rparr>\<rparr>]]\<rparr>)"
  using getData_fired [of svc "Some f" s]
  by (cases "getData svc (Some f) s")
     (simp add: selectConfigOption_def selectValues_eq setData_def fireChanged_def Let_def)

text \<open>
  Claim C6, as amended. \<open>selectConfigOption\<close> looks at the first config option
  with the given name in the data that \<open>getData\<close> gives for the FQBN. If there is
  one and one of its values equals the selected value, it returns true, stores
  data in which exactly the values of that option equal to the selected value
  are selected and its other values are not, everything else being as it was,
  and fires one change event for the FQBN with that data. If no config option
  has that name, or the first one that has it has no such value, it returns
  false, fires no event and writes nothing of its own: the state is as
  \<open>getData\<close> leaves it. That is the state before the call when the storage
  already held data for the FQBN or the FQBN is empty. Otherwise the board
  details have been requested once, and the storage is unchanged when they
  could not be loaded, and holds, under the key of the FQBN, the entry created
  from them when they could.
\<close>

theorem selectConfigOption_first_option:
  "(fst (selectConfigOption svc f opt sv s)
      \<longleftrightarrow> (\<exists>c. find (\<lambda>c. configOption_option c = opt)
                    (configOptions (fst (getData svc (Some f) s))) = Some c
              \<and> sv \<in> set (map configValue_value (configOption_values c))))
 \<and> (fst (selectConfigOption svc f opt sv s) \<longrightarrow>
      (\<exists>pre c post.
          configOptions (fst (getData svc (Some f) s)) = pre @ c # post
        \<and> (\<forall>x\<in>set pre. configOption_option x \<noteq> opt)
        \<and> configOption_option c = opt
        \<and> snd (selectConfigOption svc f opt sv s) =
            (snd (getData svc (Some f) s))
              \<lparr>storage := (storage (snd (getData svc (Some f) s)))
                 (getStorageKey f \<mapsto> StoredData ((fst (getData svc (Some f) s))
                    \<lparr>configOptions := pre @ c\<lparr>configOption_values :=
                         map (\<lambda>v. v\<lparr>configValue_selected := (configValue_value v = sv)\<rparr>)
                           (configOption_values c)\<rparr> # post\<rparr>)),
               fired := fired s @ [[\<lparr>change_fqbn = f,
                  change_data = (fst (getData svc (Some f) s))
                    \<lparr>configOptions := pre @ c\<lparr>configOption_values :=
                         map (\<lambda>v. v\<lparr>configValue_selected := (configValue_value v = sv)\<rparr>)
                           (configOption_values c)\<rparr> # post\<rparr>\<rparr>]]\<rparr>))
 \<and> (\<not> fst (selectConfigOption svc f opt sv s) \<longrightarrow>
      snd (selectConfigOption svc f opt sv s) = snd (getData svc (Some f) s)
      \<and> fired (snd (selectConfigOption svc f opt sv s)) = fired s
      \<and> (Data_is (storage s (getStorageKey f)) \<noteq> None \<or> f = [] \<longrightarrow>
           snd (selectConfigOption svc f opt sv s) = s)
      \<and> (f \<noteq> [] \<and> Data_is (storage s (getStorageKey f)) = None
           \<and> svc f = Fulfilled (Some details) \<longrightarrow>
           snd (selectConfigOption svc f opt sv s) =
             s\<lparr>storage := (storage s)(getStorageKey f \<mapsto>
                    StoredData (createDataStoreEntry details)),
               requested := requested s @ [f]\<rparr>)
      \<and> (f \<noteq> [] \<and> Data_is (storage s (getStorageKey f)) = None
           \<and> \<not> (\<exists>details. svc f = Fulfilled (Some details)) \<longrightarrow>
           snd (selectConfigOption svc f opt sv s) = s\<lparr>requested := requested s @ [f]\<rparr>))"
proof (cases "selectable opt sv (fst (getData svc (Some f) s))")
  case False
  then have r: "selectConfigOption svc f opt sv s = (False, snd (getData svc (Some f) s))"
    by (rule selectConfigOption_not_selectable)
  from False have n: "\<not> (\<exists>c. find (\<lambda>c. configOption_option c = opt)
                    (configOptions (fst (getData svc (Some f) s))) = Some c
              \<and> sv \<in> set (map configValue_value (configOption_values c)))"
    by (auto simp add: selectable_def)
  have 1: "fired (snd (getData svc (Some f) s)) = fired s"
    by (rule getData_fired)
  have 2: "Data_is (storage s (getStorageKey f)) \<noteq> None \<or> f = [] \<longrightarrow>
           snd (getData svc (Some f) s) = s"
    using getData_warm [of s f svc] by blast
  have 3: "f \<noteq> [] \<and> Data_is (storage s (getStorageKey f)) = None
           \<and> svc f = Fulfilled (Some details) \<longrightarrow>
           snd (getData svc (Some f) s) =
             s\<lparr>storage := (storage s)(getStorageKey f \<mapsto>
                    StoredData (createDataStoreEntry details)),
               requested := requested s @ [f]\<rparr>"
    by (simp add: getData_loaded)
  have 4: "f \<noteq> [] \<and> Data_is (storage s (getStorageKey f)) = None
           \<and> \<not> (\<exists>details. svc f = Fulfilled (Some details)) \<longrightarrow>
           snd (getData svc (Some f) s) = s\<lparr>requested := requested s @ [f]\<rparr>"
    by (simp add: getData_not_loaded)
  from r n 1 2 3 4 show ?thesis by simp
next
  case True
  then obtain c where c: "find (\<lambda>c. configOption_option c = opt)
                    (configOptions (fst (getData svc (Some f) s))) = Some c"
     "sv \<in> set (map configValue_value (configOption_values c))"
    by (auto simp add: selectable_def split: option.splits)
  note r = selectConfigOption_selectable [OF c]
  from mutateFound_split [OF c(1)] obtain pre post where
    h: "configOptions (fst (getData svc (Some f) s)) = pre @ c # post"
       "\<forall>x\<in>set pre. configOption_option x \<noteq> opt"
       "configOption_option c = opt"
       "mutateFound opt (map (\<lambda>v. v\<lparr>configValue_selected := (configValue_value v = sv)\<rparr>)
                    (configOption_values c)) (configOptions (fst (getData svc (Some f) s)))
          = pre @ c\<lparr>configOption_values := map (\<lambda>v. v\<lparr>configValue_selected := (configValue_value v = sv)\<rparr>)
                    (configOption_values c)\<rparr> # post"
    by blast
  have 1: "fst (selectConfigOption svc f opt sv s)
      \<longleftrightarrow> (\<exists>c. find (\<lambda>c. configOption_option c = opt)
                    (configOptions (fst (getData svc (Some f) s))) = Some c
              \<and> sv \<in> set (map configValue_value (configOption_values c)))"
    using r c by auto
  have 2: "\<exists>pre c post.
          configOptions (fst (getData svc (Some f) s)) = pre @ c # post
        \<and> (\<forall>x\<in>set pre. configOption_option x \<noteq> opt)
        \<and> configOption_option c = opt
        \<and> snd (selectConfigOption svc f opt sv s) =
            (snd (getData svc (Some f) s))
              \<lparr>storage := (storage (snd (getData svc (Some f) s)))
                 (getStorageKey f \<mapsto> StoredData ((fst (getData svc (Some f) s))
                    \<lparr>configOptions := pre @ c\<lparr>configOption_values :=
                         map (\<lambda>v. v\<lparr>configValue_selected := (configValue_value v = sv)\<rparr>)
                           (configOption_values c)\<rparr> # post\<rparr>)),
               fired := fired s @ [[\<lparr>change_fqbn = f,
                  change_data = (fst (getData svc (Some f) s))
                    \<lparr>configOptions := pre @ c\<lparr>configOption_values :=
                         map (\<lambda>v. v\<lparr>configValue_selected := (configValue_value v = sv)\<rparr>)
                           (configOption_values c)\<rparr> # post\<rparr>\<rparr>]]\<rparr>"
    apply (rule exI [of _ pre], rule exI [of _ c], rule exI [of _ post])
    using h r by simp
  have 3: "fst (selectConfigOption svc f opt sv s)"
    using r by simp
  from 1 2 3 show ?thesis by blast
qed


lemma getData_warm_options_fixture:
  "getData knownBoards (Some test_fqbn) (storeWith test_fqbn test_dataWithOptions)
     = (test_dataWithOptions, storeWith test_fqbn test_dataWithOptions)"
  by (simp add: getData_def storeWith_def setData_def test_fqbn_def)

theorem selectConfigOption_first_option_witness:
  "selectConfigOption knownBoards test_fqbn ''cpu'' ''atmega168''
      (storeWith test_fqbn test_dataWithOptions)
     = (True,
        (storeWith test_fqbn (test_dataWithOptions\<lparr>configOptions :=
            [cpuOption\<lparr>configOption_values :=
               [\<lparr>configValue_value = ''atmega328'', configValue_selected = False\<rparr>,
                \<lparr>configValue_value = ''atmega168'', configValue_selected = True\<rparr>]\<rparr>,
             cpuOptionAgain]\<rparr>))
        \<lparr>fired := [[\<lparr>change_fqbn = test_fqbn,
            change_data = test_dataWithOptions\<lparr>configOptions :=
              [cpuOption\<lparr>configOption_values :=
                 [\<lparr>configValue_value = ''atmega328'', configValue_selected = False\<rparr>,
                  \<lparr>configValue_value = ''atmega168'', configValue_selected = True\<rparr>]\<rparr>,
               cpuOptionAgain]\<rparr>\<rparr>]]\<rparr>)
 \<and> selectConfigOption knownBoards test_fqbn ''speed'' ''fast''
      (storeWith test_fqbn test_dataWithOptions)
     = (False, storeWith test_fqbn test_dataWithOptions)
 \<and> selectConfigOption knownBoards test_fqbn ''cpu'' ''atmega328'' emptyStore
     = (False, (storeWith test_fqbn test_data)\<lparr>requested := [test_fqbn]\<rparr>)
 \<and> selectConfigOption knownBoards ''x:y:z'' ''cpu'' ''atmega328'' emptyStore
     = (False, emptyStore\<lparr>requested := [''x:y:z'']\<rparr>)"
proof -
  let ?s = "storeWith test_fqbn test_dataWithOptions"
  let ?r = "selectConfigOption knownBoards test_fqbn ''cpu'' ''atmega168'' ?s"
  let ?q = "selectConfigOption knownBoards test_fqbn ''speed'' ''fast'' ?s"
  have co: "configOptions test_dataWithOptions = [cpuOption, cpuOptionAgain]"
    by (simp add: test_dataWithOptions_def)
  have f1: "find (\<lambda>c. configOption_option c = ''cpu'') [cpuOption, cpuOptionAgain] = Some cpuOption
      \<and> ''atmega168'' \<in> set (map configValue_value (configOption_values cpuOption))"
    by (simp add: cpuOption_def)
  have f2: "find (\<lambda>c. configOption_option c = ''speed'') [cpuOption, cpuOptionAgain] = None"
    by (simp add: cpuOption_def cpuOptionAgain_def)
  note t1 = selectConfigOption_first_option [where svc = knownBoards and f = test_fqbn
      and opt = "''cpu''" and sv = "''atmega168''" and s = ?s,
      unfolded getData_warm_options_fixture fst_conv snd_conv co]
  note t2 = selectConfigOption_first_option [where svc = knownBoards and f = test_fqbn
      and opt = "''speed''" and sv = "''fast''" and s = ?s,
      unfolded getData_warm_options_fixture fst_conv snd_conv co]
  from t1 f1 have ok: "fst ?r" by blast
  with t1 obtain pre c post where
    h: "[cpuOption, cpuOptionAgain] = pre @ c # post"
       "\<forall>x\<in>set pre. configOption_option x \<noteq> ''cpu''"
       "configOption_option c = ''cpu''"
       "snd ?r = ?s\<lparr>storage := (storage ?s)
                 (getStorageKey test_fqbn \<mapsto> StoredData (test_dataWithOptions
                    \<lparr>configOptions := pre @ c\<lparr>configOption_values :=
                         map (\<lambda>v. v\<lparr>configValue_selected := (configValue_value v = ''atmega168'')\<rparr>)
                           (configOption_values c)\<rparr> # post\<rparr>)),
               fired := fired ?s @ [[\<lparr>change_fqbn = test_fqbn,
                  change_data = test_dataWithOptions
                    \<lparr>configOptions := pre @ c\<lparr>configOption_values :=
                         map (\<lambda>v. v\<lparr>configValue_selected := (configValue_value v = ''atmega168'')\<rparr>)
                           (configOption_values c)\<rparr> # post\<rparr>\<rparr>]]\<rparr>"
    by blast
  have pre: "pre = []"
  proof (cases pre)
    case Nil
    then show ?thesis .
  next
    case (Cons a as)
    with h(1) have "a = cpuOption" by simp
    with h(2) Cons show ?thesis by (simp add: cpuOption_def)
  qed
  with h(1) have cp: "c = cpuOption" "post = [cpuOptionAgain]" by simp_all
  from h(4) have sr: "snd ?r =
        (storeWith test_fqbn (test_dataWithOptions\<lparr>configOptions :=
            [cpuOption\<lparr>configOption_values :=
               [\<lparr>configValue_value = ''atmega328'', configValue_selected = False\<rparr>,
                \<lparr>configValue_value = ''atmega168'', configValue_selected = True\<rparr>]\<rparr>,
             cpuOptionAgain]\<rparr>))
        \<lparr>fired := [[\<lparr>change_fqbn = test_fqbn,
            change_data = test_dataWithOptions\<lparr>configOptions :=
              [cpuOption\<lparr>configOption_values :=
                 [\<lparr>configValue_value = ''atmega328'', configValue_selected = False\<rparr>,
                  \<lparr>configValue_value = ''atmega168'', configValue_selected = True\<rparr>]\<rparr>,
               cpuOptionAgain]\<rparr>\<rparr>]]\<rparr>"
    unfolding pre cp
    by (simp add: storeWith_def setData_def emptyStore_def cpuOption_def)
  from ok sr have 1: "?r = (True,
        (storeWith test_fqbn (test_dataWithOptions\<lparr>configOptions :=
            [cpuOption\<lparr>configOption_values :=
               [\<lparr>configValue_value = ''atmega328'', configValue_selected = False\<rparr>,
                \<lparr>configValue_value = ''atmega168'', configValue_selected = True\<rparr>]\<rparr>,
             cpuOptionAgain]\<rparr>))
        \<lparr>fired := [[\<lparr>change_fqbn = test_fqbn,
            change_data = test_dataWithOptions\<lparr>configOptions :=
              [cpuOption\<lparr>configOption_values :=
                 [\<lparr>configValue_value = ''atmega328'', configValue_selected = False\<rparr>,
                  \<lparr>configValue_value = ''atmega168'', configValue_selected = True\<rparr>]\<rparr>,
               cpuOptionAgain]\<rparr>\<rparr>]]\<rparr>)"
    by (simp add: prod_eq_iff)
  from t2 f2 have "\<not> fst ?q \<and> snd ?q = ?s" by simp
  then have 2: "?q = (False, ?s)" by (simp add: prod_eq_iff)
  have n3: "\<not> (\<exists>c. find (\<lambda>c. configOption_option c = ''cpu'')
                (configOptions (fst (getData knownBoards (Some test_fqbn) emptyStore))) = Some c
              \<and> ''atmega328'' \<in> set (map configValue_value (configOption_values c)))"
    by (simp add: getData_cold_fixture) (simp add: test_data_def)
  have h3: "test_fqbn \<noteq> [] \<and> Data_is (storage emptyStore (getStorageKey test_fqbn)) = None
      \<and> knownBoards test_fqbn = Fulfilled (Some test_boardDetails)"
    by (simp add: emptyStore_def knownBoards_def) (simp add: test_fqbn_def)
  have "\<not> fst (selectConfigOption knownBoards test_fqbn ''cpu'' ''atmega328'' emptyStore)
      \<and> snd (selectConfigOption knownBoards test_fqbn ''cpu'' ''atmega328'' emptyStore)
        = emptyStore\<lparr>storage := (storage emptyStore)(getStorageKey test_fqbn \<mapsto>
                    StoredData (createDataStoreEntry test_boardDetails)),
               requested := requested emptyStore @ [test_fqbn]\<rparr>"
    using n3 h3 selectConfigOption_first_option [where svc = knownBoards and f = test_fqbn
        and opt = "''cpu''" and sv = "''atmega328''" and s = emptyStore
        and details = test_boardDetails]
    by blast
  then have 3: "selectConfigOption knownBoards test_fqbn ''cpu'' ''atmega328'' emptyStore
     = (False, (storeWith test_fqbn test_data)\<lparr>requested := [test_fqbn]\<rparr>)"
    by (simp add: prod_eq_iff storeWith_def setData_def emptyStore_def createDataStoreEntry_test)
  have n4: "\<not> (\<exists>c. find (\<lambda>c. configOption_option c = ''cpu'')
                (configOptions (fst (getData knownBoards (Some ''x:y:z'') emptyStore))) = Some c
              \<and> ''atmega328'' \<in> set (map configValue_value (configOption_values c)))"
    by (simp add: getData_unknown_fixture) (simp add: EMPTY_def)
  have h4: "''x:y:z'' \<noteq> [] \<and> Data_is (storage emptyStore (getStorageKey ''x:y:z'')) = None
      \<and> \<not> (\<exists>details. knownBoards ''x:y:z'' = Fulfilled (Some details))"
    by (simp add: emptyStore_def knownBoards_def test_fqbn_def)
  have "\<not> fst (selectConfigOption knownBoards ''x:y:z'' ''cpu'' ''atmega328'' emptyStore)
      \<and> snd (selectConfigOption knownBoards ''x:y:z'' ''cpu'' ''atmega328'' emptyStore)
        = emptyStore\<lparr>requested := requested emptyStore @ [''x:y:z'']\<rparr>"
    using n4 h4 selectConfigOption_first_option [where svc = knownBoards and f = "''x:y:z''"
        and opt = "''cpu''" and sv = "''atmega328''" and s = emptyStore
        and details = test_boardDetails]
    by blast
  then have 4: "selectConfigOption knownBoards ''x:y:z'' ''cpu'' ''atmega328'' emptyStore
     = (False, emptyStore\<lparr>requested := [''x:y:z'']\<rparr>)"
    by (simp add: prod_eq_iff emptyStore_def)
  from 1 2 3 4 show ?thesis by blast
qed

text \<open>
  The claim as first stated fails in two ways. A later config option of the
  same name is not looked at: the value \<open>atmega2560\<close> belongs to the second
  option named \<open>cpu\<close>, and the call returns false. And with nothing stored for
  the FQBN, \<open>getData\<close> stores the entry it creates, although the call returns
  false.
\<close>

theorem selectConfigOption_first_option_counterexample:
  "cpuOptionAgain \<in> set (configOptions test_dataWithOptions)
 \<and> configOption_option cpuOptionAgain = ''cpu''
 \<and> ''atmega2560'' \<in> set (map configValue_value (configOption_values cpuOptionAgain))
 \<and> selectConfigOption knownBoards test_fqbn ''cpu'' ''atmega2560''
      (storeWith test_fqbn test_dataWithOptions)
     = (False, storeWith test_fqbn test_dataWithOptions)
 \<and> \<not> fst (selectConfigOption knownBoards test_fqbn ''cpu'' ''atmega328'' emptyStore)
 \<and> storage emptyStore (getStorageKey test_fqbn) = None
 \<and> storage (snd (selectConfigOption knownBoards test_fqbn ''cpu'' ''atmega328'' emptyStore))
      (getStorageKey test_fqbn) = Some (StoredData test_data)"
proof -
  have 1: "selectConfigOption knownBoards test_fqbn ''cpu'' ''atmega2560''
      (storeWith test_fqbn test_dataWithOptions)
     = (False, storeWith test_fqbn test_dataWithOptions)"
    by (simp add: selectConfigOption_def getData_warm_options_fixture)
       (simp add: test_dataWithOptions_def cpuOption_def)
  have 2: "selectConfigOption knownBoards test_fqbn ''cpu'' ''atmega328'' emptyStore
     = (False, (storeWith test_fqbn test_data)\<lparr>requested := [test_fqbn]\<rparr>)"
    by (simp add: selectConfigOption_def getData_cold_fixture)
       (simp add: test_data_def)
  show ?thesis
    unfolding 1 2
    by (simp add: test_dataWithOptions_def cpuOptionAgain_def storeWith_def setData_def
        emptyStore_def)
qed

text \<open>
  Claim C7, as amended. \<open>appendConfigToFqbn\<close> returns undefined if and only if its
  FQBN is undefined or empty. For every other FQBN it returns the FQBN decorated,
  by \<open>ConfigOption.decorate\<close>, with the config options of the data that \<open>getData\<close>
  gives for that FQBN, and it leaves the state as \<open>getData\<close> leaves it.
\<close>

theorem appendConfigToFqbn_decorates:
  "(fst (appendConfigToFqbn decorate svc fqbn s) = None \<longleftrightarrow> fqbn = None \<or> fqbn = Some [])
 \<and> (fqbn = Some f \<and> f \<noteq> [] \<longrightarrow>
      appendConfigToFqbn decorate svc fqbn s =
        (Some (decorate f (configOptions (fst (getData svc (Some f) s)))),
         snd (getData svc (Some f) s)))"
proof (cases fqbn)
  case None
  then show ?thesis by (simp add: appendConfigToFqbn_def)
next
  case (Some g)
  then show ?thesis
    by (cases "getData svc (Some g) s") (auto simp add: appendConfigToFqbn_def)
qed

theorem appendConfigToFqbn_decorates_witness:
  "appendConfigToFqbn noDecoration knownBoards (Some test_fqbn) (storeWith test_fqbn test_data)
     = (Some test_fqbn, storeWith test_fqbn test_data)
 \<and> fst (appendConfigToFqbn noDecoration knownBoards None (storeWith test_fqbn test_data)) = None"
proof -
  have h: "Some test_fqbn = Some test_fqbn \<and> test_fqbn \<noteq> []"
    by (simp add: test_fqbn_def)
  from h appendConfigToFqbn_decorates [where decorate = noDecoration and svc = knownBoards
      and fqbn = "Some test_fqbn" and f = test_fqbn and s = "storeWith test_fqbn test_data"]
  have "appendConfigToFqbn noDecoration knownBoards (Some test_fqbn) (storeWith test_fqbn test_data)
     = (Some (noDecoration test_fqbn (configOptions (fst (getData knownBoards (Some test_fqbn)
           (storeWith test_fqbn test_data))))),
        snd (getData knownBoards (Some test_fqbn) (storeWith test_fqbn test_data)))"
    by blast
  then have 1: "appendConfigToFqbn noDecoration knownBoards (Some test_fqbn)
       (storeWith test_fqbn test_data) = (Some test_fqbn, storeWith test_fqbn test_data)"
    by (simp add: getData_warm_fixture noDecoration_def)
  have 2: "fst (appendConfigToFqbn noDecoration knownBoards None (storeWith test_fqbn test_data)) = None"
    using appendConfigToFqbn_decorates [where decorate = noDecoration and svc = knownBoards
      and fqbn = None and f = test_fqbn and s = "storeWith test_fqbn test_data"]
    by blast
  from 1 2 show ?thesis by blast
qed

text \<open>
  The claim as first stated has undefined returned for the undefined FQBN only.
  The empty FQBN is defined, and undefined is returned for it.
\<close>

theorem appendConfigToFqbn_decorates_counterexample:
  "fst (appendConfigToFqbn noDecoration knownBoards (Some []) (storeWith test_fqbn test_data)) = None"
  by (simp add: appendConfigToFqbn_def)

lemma find_id_Some:
  "find (\<lambda>p. programmer_id p = i) ps = Some p \<Longrightarrow> p \<in> set ps \<and> programmer_id p = i"
  by (induction ps) (auto split: if_splits)

text \<open>
  Claim C8, as amended. In the entry that \<open>createDataStoreEntry\<close> makes from board
  details, the selected programmer is present if and only if the default
  programmer id of the details is defined and not empty and some programmer of
  the details has that id; when present, it is a member of the programmers of
  the details with that id, the first such. The config options and the
  programmers of the entry are those of the details.
\<close>

theorem createDataStoreEntry_default:
  "(selectedProgrammer (createDataStoreEntry details) \<noteq> None
      \<longleftrightarrow> (\<exists>i. details_defaultProgrammerId details = Some i \<and> i \<noteq> []
               \<and> (\<exists>p\<in>set (details_programmers details). programmer_id p = i)))
 \<and> (selectedProgrammer (createDataStoreEntry details) = Some p \<longrightarrow>
        p \<in> set (details_programmers details)
      \<and> details_defaultProgrammerId details = Some (programmer_id p)
      \<and> find (\<lambda>q. programmer_id q = programmer_id p) (details_programmers details) = Some p)
 \<and> configOptions (createDataStoreEntry details) = details_configOptions details
 \<and> programmers (createDataStoreEntry details) = details_programmers details"
proof (cases "details_defaultProgrammerId details")
  case None
  then show ?thesis by (simp add: createDataStoreEntry_def Let_def)
next
  case (Some i)
  show ?thesis
  proof (cases "i = []")
    case True
    with Some show ?thesis by (simp add: createDataStoreEntry_def Let_def)
  next
    case False
    have sel: "selectedProgrammer (createDataStoreEntry details)
                 = find (\<lambda>q. programmer_id q = i) (details_programmers details)"
      using Some False by (simp add: createDataStoreEntry_def Let_def)
    have 1: "selectedProgrammer (createDataStoreEntry details) \<noteq> None
      \<longleftrightarrow> (\<exists>i. details_defaultProgrammerId details = Some i \<and> i \<noteq> []
               \<and> (\<exists>p\<in>set (details_programmers details). programmer_id p = i))"
      using Some False by (auto simp add: sel find_None_iff)
    have 2: "selectedProgrammer (createDataStoreEntry details) = Some p \<longrightarrow>
        p \<in> set (details_programmers details)
      \<and> details_defaultProgrammerId details = Some (programmer_id p)
      \<and> find (\<lambda>q. programmer_id q = programmer_id p) (details_programmers details) = Some p"
      using Some find_id_Some [of i "details_programmers details" p] by (auto simp add: sel)
    have 3: "configOptions (createDataStoreEntry details) = details_configOptions details
      \<and> programmers (createDataStoreEntry details) = details_programmers details"
      by (simp add: createDataStoreEntry_def Let_def)
    from 1 2 3 show ?thesis by blast
  qed
qed

theorem createDataStoreEntry_default_witness:
  "selectedProgrammer (createDataStoreEntry test_boardDetails) = Some p1
 \<and> p1 \<in> set (details_programmers test_boardDetails)
 \<and> details_defaultProgrammerId test_boardDetails = Some (programmer_id p1)"
proof -
  have s: "selectedProgrammer (createDataStoreEntry test_boardDetails) = Some p1"
    by (simp add: createDataStoreEntry_test) (simp add: test_data_def)
  with createDataStoreEntry_default [where details = test_boardDetails and p = p1]
  show ?thesis by blast
qed

text \<open>
  The claim as first stated asks for a defined default programmer id only. With
  the empty string as the default id and a programmer whose id is the empty
  string, no programmer is selected.
\<close>

theorem createDataStoreEntry_default_counterexample:
  "details_defaultProgrammerId test_detailsEmptyDefault = Some []
 \<and> unnamedProgrammer \<in> set (details_programmers test_detailsEmptyDefault)
 \<and> programmer_id unnamedProgrammer = []
 \<and> selectedProgrammer (createDataStoreEntry test_detailsEmptyDefault) = None"
  by (simp add: createDataStoreEntry_def test_detailsEmptyDefault_def unnamedProgrammer_def Let_def)

section \<open>Properties of compile for debug\<close>

text \<open>
  Claim C10. \<open>compileForDebug\<close> is true exactly when the value stored under the key
  \<open>arduino-compile-for-debug\<close> is the string \<open>true\<close>. Every call of
  \<open>toggleCompileForDebug\<close> negates it, so two calls in a row give back the value
  it had before them.
\<close>

theorem toggleCompileForDebug_involution:
  "COMPILE_FOR_DEBUG_KEY = ''arduino-compile-for-debug''
 \<and> compileForDebug s = (localStorage s ''arduino-compile-for-debug'' = Some ''true'')
 \<and> compileForDebug (toggleCompileForDebug s) = (\<not> compileForDebug s)
 \<and> compileForDebug (toggleCompileForDebug (toggleCompileForDebug s)) = compileForDebug s"
  by (simp add: compileForDebug_def toggleCompileForDebug_def COMPILE_FOR_DEBUG_KEY_def
      String_of_boolean_def Let_def)

end
